theory Spec2Isabelle
  imports Complex_Main "HOL-Library.Word"
begin

unbundle bit_operations_syntax

section \<open>ds4drv: a shallow embedding of \<^verbatim>\<open>src/ds4drv.py\<close>\<close>

text \<open>
  The driver is Python. Its integers are unbounded and are modelled as \<open>int\<close>; the
  elements of a \<^verbatim>\<open>bytearray\<close> are bytes and are modelled as \<open>8 word\<close>, read back
  as Python integers with \<open>uint\<close>. Exceptions are values of the type \<open>error\<close>, and a
  function that can raise returns \<open>error + 'a\<close> with \<open>Inl\<close> for the exception.
  The operating system (sockets, the clock, the scan tool, thread liveness) is an explicit
  argument or an explicit component of the state.
\<close>

subsection \<open>Constants\<close>

definition HIDP_TRANS_SET_REPORT :: int where
  "HIDP_TRANS_SET_REPORT = 0x50"

definition HIDP_DATA_RTYPE_OUTPUT :: int where
  "HIDP_DATA_RTYPE_OUTPUT = 0x02"

subsection \<open>Exceptions and bytes\<close>

text \<open>
  The exceptions the modelled code can see. \<open>SocketError\<close> is \<^verbatim>\<open>socket.error\<close>,
  \<open>StructError\<close> is \<^verbatim>\<open>struct.error\<close>, and \<open>SystemExit n\<close> is what \<^verbatim>\<open>sys.exit(n)\<close>
  raises.
\<close>

datatype error =
    ValueError
  | IndexError
  | StructError
  | SocketError
  | OSError
  | CalledProcessError
  | SystemExit int

text \<open>
  The result of a call into the operating system that may wait for input: it returns, it
  raises, or it blocks because the peer sends nothing more.
\<close>

datatype 'a io = Returns 'a | Raises error | Blocks

text \<open>
  The result of resuming a generator: it yields an item, it ends, an exception leaves it,
  or it stays blocked inside a system call.
\<close>

datatype 'a gen = Yield 'a | StopIteration | Raised error | Pending

type_synonym byte = "8 word"

text \<open>
  \<^verbatim>\<open>bytearray(n)\<close> is \<open>n\<close> zero bytes. Storing into a bytearray raises IndexError for
  an index outside the array and ValueError for a value outside \<open>range(0, 256)\<close>.
\<close>

definition bytearray :: "nat \<Rightarrow> byte list" where
  "bytearray n = replicate n 0"

definition setitem :: "byte list \<Rightarrow> nat \<Rightarrow> int \<Rightarrow> error + byte list" where
  "setitem arr i v =
     (if length arr \<le> i then Inl IndexError
      else if v < 0 \<or> 256 \<le> v then Inl ValueError
      else Inr (arr[i := word_of_int v]))"

text \<open>
  \<^verbatim>\<open>bytearray(ints)\<close>: the bytes with the given values; ValueError when one of them
  is outside \<open>range(0, 256)\<close>.
\<close>

definition bytearray_of :: "int list \<Rightarrow> error + byte list" where
  "bytearray_of vs =
     (if list_all (\<lambda>v. 0 \<le> v \<and> v < 256) vs then Inr (map word_of_int vs)
      else Inl ValueError)"

text \<open>
  A run of item assignments, in statement order; the first one that raises ends the run.
\<close>

fun setitems :: "byte list \<Rightarrow> (nat \<times> int) list \<Rightarrow> error + byte list" where
  "setitems arr [] = Inr arr"
| "setitems arr ((i, v) # rest) =
     (case setitem arr i v of
        Inl e \<Rightarrow> Inl e
      | Inr arr' \<Rightarrow> setitems arr' rest)"

subsection \<open>Sockets\<close>

text \<open>
  A connected L2CAP socket. \<open>sent\<close> holds the datagrams handed to \<^verbatim>\<open>sendall\<close>, oldest
  first. \<open>inbound\<close> holds the datagrams the peer delivers to successive receive calls,
  next one first; an empty datagram is the peer closing the channel. \<open>broken\<close> tells
  that the transport fails, in which case every send and receive raises
  \<^verbatim>\<open>socket.error\<close>.
\<close>

record bt_socket =
  sent :: "byte list list"
  inbound :: "byte list list"
  broken :: bool

definition sendall :: "bt_socket \<Rightarrow> byte list \<Rightarrow> error + bt_socket" where
  "sendall s data =
     (if broken s then Inl SocketError else Inr (s\<lparr>sent := sent s @ [data]\<rparr>))"

subsection \<open>The device session: control commands\<close>

record DS4Device =
  bdaddr :: string
  buf :: "byte list"
  ctl_sock :: bt_socket
  int_sock :: bt_socket

text \<open>The keyword arguments of \<^verbatim>\<open>DS4Device.control\<close>; each one defaults to 0.\<close>

record control_args =
  big_rumble :: int
  small_rumble :: int
  led_red :: int
  led_green :: int
  led_blue :: int
  flash_led1 :: int
  flash_led2 :: int

definition control_defaults :: control_args where
  "control_defaults =
     \<lparr>big_rumble = 0, small_rumble = 0, led_red = 0, led_green = 0, led_blue = 0,
      flash_led1 = 0, flash_led2 = 0\<rparr>"

text \<open>
  The bytes that \<^verbatim>\<open>control\<close> builds: the one-byte \<^verbatim>\<open>hid\<close> header, then the 78-byte
  \<^verbatim>\<open>pkt\<close> filled by the item assignments of the source, in their order.
\<close>

definition control_packet :: "control_args \<Rightarrow> error + byte list" where
  "control_packet a =
     (case bytearray_of [HIDP_TRANS_SET_REPORT OR HIDP_DATA_RTYPE_OUTPUT] of
        Inl e \<Rightarrow> Inl e
      | Inr hid \<Rightarrow>
          (case setitems (bytearray 78)
                  [(0, 0x11), (1, 128), (3, 255),
                   (6, big_rumble a), (7, small_rumble a),
                   (8, led_red a), (9, led_green a), (10, led_blue a),
                   (11, flash_led1 a),
                   (12, flash_led2 a)] of
             Inl e \<Rightarrow> Inl e
           | Inr pkt \<Rightarrow> Inr (hid @ pkt)))"

definition control :: "DS4Device \<Rightarrow> control_args \<Rightarrow> error + DS4Device" where
  "control dev a =
     (case control_packet a of
        Inl e \<Rightarrow> Inl e
      | Inr data \<Rightarrow>
          (case sendall (ctl_sock dev) data of
             Inl e \<Rightarrow> Inl e
           | Inr s \<Rightarrow> Inr (dev\<lparr>ctl_sock := s\<rparr>)))"

text \<open>All seven arguments of a control command are byte values.\<close>

definition args_in_range :: "control_args \<Rightarrow> bool" where
  "args_in_range a =
     list_all (\<lambda>v. 0 \<le> v \<and> v < 256)
       [big_rumble a, small_rumble a, led_red a, led_green a, led_blue a,
        flash_led1 a, flash_led2 a]"

text \<open>The payload the wire format prescribes for a control command, written out.\<close>

definition control_payload :: "control_args \<Rightarrow> byte list" where
  "control_payload a =
     [0x11, 0x80, 0, 0xFF, 0, 0,
      word_of_int (big_rumble a), word_of_int (small_rumble a),
      word_of_int (led_red a), word_of_int (led_green a), word_of_int (led_blue a),
      word_of_int (flash_led1 a), word_of_int (flash_led2 a)] @ replicate 65 0"

subsection \<open>The log\<close>

text \<open>
  \<^verbatim>\<open>Daemon.msg\<close> writes one line, \<^verbatim>\<open>[prefix] text\<close>, to the log; the log is the list of the
  lines written so far. \<^verbatim>\<open>Daemon.exit\<close> writes an error line and calls \<^verbatim>\<open>sys.exit(1)\<close>.
\<close>

type_synonym log = "string list"

definition Daemon_msg :: "string \<Rightarrow> string \<Rightarrow> log \<Rightarrow> log" where
  "Daemon_msg prefix text lg = lg @ [''['' @ prefix @ ''] '' @ text]"

definition Daemon_info :: "string \<Rightarrow> log \<Rightarrow> log" where
  "Daemon_info text lg = Daemon_msg ''info'' text lg"

definition Daemon_warn :: "string \<Rightarrow> log \<Rightarrow> log" where
  "Daemon_warn text lg = Daemon_msg ''warning'' text lg"

definition Daemon_exit :: "string \<Rightarrow> log \<Rightarrow> error \<times> log" where
  "Daemon_exit text lg = (SystemExit 1, Daemon_msg ''error'' text lg)"

subsection \<open>The input report\<close>

record DS4Report =
  left_analog_x :: int
  left_analog_y :: int
  right_analog_x :: int
  right_analog_y :: int
  l2_analog :: int
  r2_analog :: int
  dpad_up :: bool
  dpad_down :: bool
  dpad_left :: bool
  dpad_right :: bool
  button_cross :: bool
  button_circle :: bool
  button_square :: bool
  button_triangle :: bool
  button_l1 :: bool
  button_l2 :: bool
  button_l3 :: bool
  button_r1 :: bool
  button_r2 :: bool
  button_r3 :: bool
  button_share :: bool
  button_options :: bool
  button_trackpad :: bool
  button_ps :: bool
  motion_y :: int
  motion_x :: int
  motion_z :: int
  orientation_roll :: int
  orientation_yaw :: int
  orientation_pitch :: int
  trackpad_touch0_id :: int
  trackpad_touch0_active :: bool
  trackpad_touch0_x :: int
  trackpad_touch0_y :: int
  trackpad_touch1_id :: int
  trackpad_touch1_active :: bool
  trackpad_touch1_x :: int
  trackpad_touch1_y :: int
  timestamp :: int
  battery :: int
  charging :: bool

text \<open>\<^verbatim>\<open>buf[i]\<close>: the byte at index \<open>i\<close> as a Python integer, 0 to 255.\<close>

definition item :: "byte list \<Rightarrow> nat \<Rightarrow> int" where
  "item b i = uint (b ! i)"

text \<open>
  \<^verbatim>\<open>S16LE.unpack(buf[i:i+2])[0]\<close> with \<^verbatim>\<open>S16LE = Struct("<h")\<close>: the two bytes at \<open>i\<close> and
  \<open>i + 1\<close>, low byte first, read as one signed 16-bit integer.
\<close>

definition S16LE_unpack :: "byte list \<Rightarrow> nat \<Rightarrow> int" where
  "S16LE_unpack b i = sint (word_cat (b ! (i + 1)) (b ! i) :: 16 word)"

text \<open>
  The \<^verbatim>\<open>DS4Report(...)\<close> expression of \<^verbatim>\<open>read_report\<close>. Its arguments are evaluated in
  order. On a buffer of fewer than 13 bytes one of the first index reads (up to
  \<^verbatim>\<open>buf[12]\<close>) raises IndexError; on fewer than 28 bytes one of the slices handed to
  \<^verbatim>\<open>S16LE.unpack\<close> is short and it raises \<^verbatim>\<open>struct.error\<close>; on fewer than 46 bytes one of
  the reads up to \<^verbatim>\<open>buf[45]\<close> raises IndexError. From 46 bytes on every read is in range.
\<close>

definition decode_report :: "byte list \<Rightarrow> error + DS4Report" where
  "decode_report b =
     (if length b < 13 then Inl IndexError
      else if length b < 28 then Inl StructError
      else if length b < 46 then Inl IndexError
      else Inr
       \<lparr>left_analog_x = item b 4, left_analog_y = item b 5,
        right_analog_x = item b 6, right_analog_y = item b 7,
        l2_analog = item b 11, r2_analog = item b 12,
        dpad_up = (item b 8 \<in> set [0, 1, 7]), dpad_down = (item b 8 \<in> set [3, 4, 5]),
        dpad_left = (item b 8 \<in> set [5, 6, 7]), dpad_right = (item b 8 \<in> set [1, 2, 3]),
        button_cross = (item b 8 AND 32 \<noteq> 0), button_circle = (item b 8 AND 64 \<noteq> 0),
        button_square = (item b 8 AND 16 \<noteq> 0), button_triangle = (item b 8 AND 128 \<noteq> 0),
        button_l1 = (item b 9 AND 0x01 \<noteq> 0), button_l2 = (item b 9 AND 0x04 \<noteq> 0),
        button_l3 = (item b 9 AND 0x40 \<noteq> 0),
        button_r1 = (item b 9 AND 0x02 \<noteq> 0), button_r2 = (item b 9 AND 0x08 \<noteq> 0),
        button_r3 = (item b 9 AND 0x80 \<noteq> 0),
        button_share = (item b 9 AND 0x10 \<noteq> 0), button_options = (item b 9 AND 0x20 \<noteq> 0),
        button_trackpad = (item b 10 AND 2 \<noteq> 0), button_ps = (item b 10 AND 1 \<noteq> 0),
        motion_y = S16LE_unpack b 16,
        motion_x = S16LE_unpack b 18,
        motion_z = S16LE_unpack b 20,
        orientation_roll = - (S16LE_unpack b 22),
        orientation_yaw = S16LE_unpack b 24,
        orientation_pitch = S16LE_unpack b 26,
        trackpad_touch0_id = item b 38 AND 0x7f,
        trackpad_touch0_active = (drop_bit 7 (item b 38) = 0),
        trackpad_touch0_x = push_bit 8 (item b 40 AND 0x0f) OR item b 39,
        trackpad_touch0_y = push_bit 4 (item b 41) OR drop_bit 4 (item b 40 AND 0xf0),
        trackpad_touch1_id = item b 42 AND 0x7f,
        trackpad_touch1_active = (drop_bit 7 (item b 42) = 0),
        trackpad_touch1_x = push_bit 8 (item b 44 AND 0x0f) OR item b 43,
        trackpad_touch1_y = push_bit 4 (item b 45) OR drop_bit 4 (item b 44 AND 0xf0),
        timestamp = drop_bit 2 (item b 10),
        battery = item b 33 mod 0x10,
        charging = (item b 33 AND 0x10 \<noteq> 0)\<rparr>)"

subsection \<open>The device session: reading reports\<close>

text \<open>
  \<^verbatim>\<open>sock.recv_into(buf)\<close> takes the next datagram, writes at most \<open>length buf\<close> of its
  bytes over the start of \<open>buf\<close> (the rest of a longer datagram is dropped, the rest of
  \<open>buf\<close> keeps its old content) and returns the number of bytes written.
\<close>

definition recv_into :: "bt_socket \<Rightarrow> byte list \<Rightarrow> (int \<times> byte list \<times> bt_socket) io" where
  "recv_into s b =
     (if broken s then Raises SocketError
      else case inbound s of
        [] \<Rightarrow> Blocks
      | d # rest \<Rightarrow>
          Returns (int (min (length d) (length b)),
                   take (length b) d @ drop (length d) b,
                   s\<lparr>inbound := rest\<rparr>))"

text \<open>What \<^verbatim>\<open>read_report\<close> returns: \<^verbatim>\<open>None\<close>, \<^verbatim>\<open>False\<close> or a report.\<close>

datatype report_result = PyNone | PyFalse | Report DS4Report

definition read_report :: "DS4Device \<Rightarrow> (report_result \<times> DS4Device) io" where
  "read_report dev =
     (case recv_into (int_sock dev) (buf dev) of
        Raises e \<Rightarrow> Raises e
      | Blocks \<Rightarrow> Blocks
      | Returns (ret, b, s) \<Rightarrow>
          (let dev' = dev\<lparr>buf := b, int_sock := s\<rparr> in
           if ret = 0 then Returns (PyNone, dev')
           else if ret < 79 then Returns (PyFalse, dev')
           else (case decode_report b of
                   Inl e \<Rightarrow> Raises e
                 | Inr r \<Rightarrow> Returns (Report r, dev'))))"

text \<open>
  The generator behind the \<^verbatim>\<open>reports\<close> property, resumed once: it reads until it has a
  report to yield. \<^verbatim>\<open>None\<close> ends it; a report is a non-empty tuple, hence true, and is
  yielded; \<^verbatim>\<open>False\<close> writes a warning and reads again.
\<close>

function reports_next :: "DS4Device \<Rightarrow> log \<Rightarrow> DS4Report gen \<times> DS4Device \<times> log" where
  "reports_next dev lg =
     (case read_report dev of
        Raises e \<Rightarrow> (Raised e, dev, lg)
      | Blocks \<Rightarrow> (Pending, dev, lg)
      | Returns (report, dev') \<Rightarrow>
          (case report of
             PyNone \<Rightarrow> (StopIteration, dev', lg)
           | Report r \<Rightarrow> (Yield r, dev', lg)
           | PyFalse \<Rightarrow>
               reports_next dev' (Daemon_warn ''Got simplified HID report, ignoring'' lg)))"
  by pat_completeness auto

lemma read_report_consumes:
  assumes "read_report dev = Returns (res, dev')"
  shows "length (inbound (int_sock dev')) < length (inbound (int_sock dev))"
    and "ctl_sock dev' = ctl_sock dev"
    and "length (buf dev') = length (buf dev)"
  using assms
  by (auto simp: read_report_def recv_into_def Let_def
      split: if_splits list.splits sum.splits)

termination reports_next
  by (relation "measure (\<lambda>(dev, lg). length (inbound (int_sock dev)))")
     (auto dest: read_report_consumes(1))

declare reports_next.simps [simp del]

subsection \<open>The worker\<close>

text \<open>
  One controller profile: the four options of \<^verbatim>\<open>ControllerAction\<close>. \<open>led\<close> is the tuple
  that \<^verbatim>\<open>hexcolor\<close> returns.
\<close>

record profile =
  battery_flash :: bool
  emulate_xpad :: bool
  led :: "int \<times> int \<times> int"
  trackpad_mouse :: bool

text \<open>
  The virtual input device. Its event tables are outside the model; \<open>uid\<close> is the
  identity of the object and \<open>emitted\<close> the reports handed to \<^verbatim>\<open>emit\<close> so far.
\<close>

record UInputDevice =
  uid :: nat
  xpad :: bool
  mouse :: bool
  emitted :: "DS4Report list"

definition emit :: "UInputDevice \<Rightarrow> DS4Report \<Rightarrow> UInputDevice" where
  "emit j r = j\<lparr>emitted := emitted j @ [r]\<rparr>"

text \<open>
  The state of one run of \<^verbatim>\<open>read_device\<close>: its arguments, its two local variables, the
  number of calls of \<^verbatim>\<open>time()\<close> made so far, and the log lines it wrote. The clock is a
  function: the \<open>n\<close>-th call of \<^verbatim>\<open>time()\<close> in this worker returns \<open>clock n\<close>, in seconds.
\<close>

record worker_state =
  w_device :: DS4Device
  w_joypad :: UInputDevice
  led_last_flash :: real
  led_flashing :: bool
  time_calls :: nat
  w_log :: log

definition time_now :: "(nat \<Rightarrow> real) \<Rightarrow> worker_state \<Rightarrow> real \<times> worker_state" where
  "time_now clock st = (clock (time_calls st), st\<lparr>time_calls := Suc (time_calls st)\<rparr>)"

text \<open>The arguments \<^verbatim>\<open>led_red=options.led[0], led_green=options.led[1], led_blue=options.led[2]\<close>.\<close>

definition led_args :: "profile \<Rightarrow> control_args" where
  "led_args opts =
     control_defaults\<lparr>led_red := fst (led opts), led_green := fst (snd (led opts)),
                      led_blue := snd (snd (led opts))\<rparr>"

text \<open>
  The first \<^verbatim>\<open>if\<close> of the loop body: a low battery that is not charging starts a flash
  when the LED is not flashing and the last flash began more than 60 seconds ago. The
  clock is read only when \<^verbatim>\<open>not led_flashing\<close> holds, as \<^verbatim>\<open>and\<close> evaluates.
\<close>

definition flash_start ::
  "(nat \<Rightarrow> real) \<Rightarrow> profile \<Rightarrow> worker_state \<Rightarrow> DS4Report \<Rightarrow> error + worker_state" where
  "flash_start clock opts st report =
     (if battery report < 2 \<and> \<not> charging report then
        (if \<not> led_flashing st then
           (let (now, st1) = time_now clock st in
            if now - led_last_flash st1 > 60 then
              (case control (w_device st1) ((led_args opts)\<lparr>flash_led1 := 30, flash_led2 := 30\<rparr>) of
                 Inl e \<Rightarrow> Inl e
               | Inr dev \<Rightarrow>
                   (let st2 = st1\<lparr>w_device := dev, led_flashing := True\<rparr>;
                        (now2, st3) = time_now clock st2
                    in Inr (st3\<lparr>led_last_flash := now2\<rparr>)))
            else Inr st1)
         else Inr st)
      else Inr st)"

text \<open>
  The second \<^verbatim>\<open>if\<close>: a flash older than 5 seconds is ended by a command with both flash
  durations (and everything else) zero, followed by the profile colour.
\<close>

definition flash_stop :: "(nat \<Rightarrow> real) \<Rightarrow> profile \<Rightarrow> worker_state \<Rightarrow> error + worker_state" where
  "flash_stop clock opts st =
     (if led_flashing st then
        (let (now, st1) = time_now clock st in
         if now - led_last_flash st1 > 5 then
           (case control (w_device st1) (control_defaults\<lparr>flash_led1 := 0, flash_led2 := 0\<rparr>) of
              Inl e \<Rightarrow> Inl e
            | Inr dev \<Rightarrow>
                (case control dev (led_args opts) of
                   Inl e \<Rightarrow> Inl e
                 | Inr dev' \<Rightarrow> Inr (st1\<lparr>w_device := dev', led_flashing := False\<rparr>)))
         else Inr st1)
      else Inr st)"

text \<open>The body of the \<^verbatim>\<open>for report in device.reports\<close> loop.\<close>

definition read_device_body ::
  "(nat \<Rightarrow> real) \<Rightarrow> profile \<Rightarrow> worker_state \<Rightarrow> DS4Report \<Rightarrow> error + worker_state" where
  "read_device_body clock opts st report =
     (case (if battery_flash opts then
              (case flash_start clock opts st report of
                 Inl e \<Rightarrow> Inl e
               | Inr st1 \<Rightarrow> flash_stop clock opts st1)
            else Inr st) of
        Inl e \<Rightarrow> Inl e
      | Inr st2 \<Rightarrow> Inr (st2\<lparr>w_joypad := emit (w_joypad st2) report\<rparr>))"

text \<open>
  How a worker's run ends: the report stream ended and \<^verbatim>\<open>read_device\<close> returned; an
  exception left it; or it waits in a receive call for a peer that sends nothing more.
\<close>

datatype worker_end = Finished worker_state | Died error | Stalled worker_state

function read_device_loop :: "(nat \<Rightarrow> real) \<Rightarrow> profile \<Rightarrow> worker_state \<Rightarrow> worker_end" where
  "read_device_loop clock opts st =
     (case reports_next (w_device st) (w_log st) of
        (StopIteration, dev, lg) \<Rightarrow> Finished (st\<lparr>w_device := dev, w_log := lg\<rparr>)
      | (Pending, dev, lg) \<Rightarrow> Stalled (st\<lparr>w_device := dev, w_log := lg\<rparr>)
      | (Raised e, dev, lg) \<Rightarrow> Died e
      | (Yield report, dev, lg) \<Rightarrow>
          (case read_device_body clock opts (st\<lparr>w_device := dev, w_log := lg\<rparr>) report of
             Inl e \<Rightarrow> Died e
           | Inr st' \<Rightarrow> read_device_loop clock opts st'))"
  by pat_completeness auto

lemma reports_next_consumes:
  "reports_next dev lg = (Yield r, dev', lg') \<Longrightarrow>
     length (inbound (int_sock dev')) < length (inbound (int_sock dev))"
proof (induction dev lg rule: reports_next.induct)
  case (1 dev lg)
  show ?case
  proof (cases "read_report dev")
    case (Returns p)
    obtain res d where p: "p = (res, d)" by (cases p)
    note less = read_report_consumes(1) [OF Returns [unfolded p]]
    show ?thesis
    proof (cases res)
      case PyFalse
      from "1.prems" Returns p PyFalse
      have "reports_next d (Daemon_warn ''Got simplified HID report, ignoring'' lg) = (Yield r, dev', lg')"
        by (simp add: reports_next.simps [of dev])
      from "1.IH" [OF Returns p [symmetric] PyFalse this] less show ?thesis
        by simp
    next
      case PyNone
      with "1.prems" Returns p show ?thesis
        by (simp add: reports_next.simps [of dev])
    next
      case (Report x)
      with "1.prems" Returns p less show ?thesis
        by (simp add: reports_next.simps [of dev])
    qed
  next
    case (Raises e)
    with "1.prems" show ?thesis by (simp add: reports_next.simps [of dev])
  next
    case Blocks
    with "1.prems" show ?thesis by (simp add: reports_next.simps [of dev])
  qed
qed

lemma control_int_sock:
  "control dev a = Inr dev' \<Longrightarrow> int_sock dev' = int_sock dev"
  by (auto simp: control_def split: sum.splits)

lemma read_device_body_int_sock:
  assumes "read_device_body clock opts st report = Inr st'"
  shows "int_sock (w_device st') = int_sock (w_device st)"
  using assms
  by (auto simp: read_device_body_def flash_start_def flash_stop_def time_now_def Let_def
      split: if_splits sum.splits dest!: control_int_sock)

termination read_device_loop
proof (relation "measure (\<lambda>(clock, opts, st). length (inbound (int_sock (w_device st))))")
  show "wf (measure (\<lambda>(clock, opts, st). length (inbound (int_sock (w_device st)))))"
    by simp
next
  fix clock :: "nat \<Rightarrow> real" and opts st x report y dev lg st'
  assume "(x, y) = reports_next (w_device st) (w_log st)" "x = Yield report" "(dev, lg) = y"
    and body: "read_device_body clock opts (st\<lparr>w_device := dev, w_log := lg\<rparr>) report = Inr st'"
  then have "reports_next (w_device st) (w_log st) = (Yield report, dev, lg)"
    by simp
  from reports_next_consumes [OF this] read_device_body_int_sock [OF body]
  show "((clock, opts, st'), (clock, opts, st))
          \<in> measure (\<lambda>(clock, opts, st). length (inbound (int_sock (w_device st))))"
    by simp
qed

declare read_device_loop.simps [simp del]

text \<open>
  \<^verbatim>\<open>read_device\<close>: set the profile colour, then start the loop with
  \<^verbatim>\<open>led_last_flash = time()\<close> and \<^verbatim>\<open>led_flashing = True\<close>.
\<close>

definition read_device ::
  "(nat \<Rightarrow> real) \<Rightarrow> DS4Device \<Rightarrow> UInputDevice \<Rightarrow> profile \<Rightarrow> worker_end" where
  "read_device clock dev jp opts =
     (case control dev (led_args opts) of
        Inl e \<Rightarrow> Died e
      | Inr dev' \<Rightarrow>
          read_device_loop clock opts
            \<lparr>w_device = dev', w_joypad = jp, led_last_flash = clock 0, led_flashing = True,
             time_calls = 1, w_log = []\<rparr>)"

subsection \<open>Connecting\<close>

text \<open>
  The radio, as one connection attempt sees it: for an address, the socket that connecting
  to the control channel gives and the socket that connecting to the interrupt channel
  gives; \<open>None\<close> is a connect call that raises \<^verbatim>\<open>socket.error\<close>.
\<close>

type_synonym radio = "string \<Rightarrow> bt_socket option \<times> bt_socket option"

text \<open>\<^verbatim>\<open>DS4Device.__init__\<close>: a fresh 79-byte buffer, and the LED set to white.\<close>

definition DS4Device_init :: "string \<Rightarrow> bt_socket \<Rightarrow> bt_socket \<Rightarrow> error + DS4Device" where
  "DS4Device_init addr ctl intr =
     control \<lparr>bdaddr = addr, buf = bytearray 79, ctl_sock = ctl, int_sock = intr\<rparr>
       (control_defaults\<lparr>led_red := 255, led_green := 255, led_blue := 255\<rparr>)"

definition connect :: "radio \<Rightarrow> string \<Rightarrow> error + DS4Device" where
  "connect rd addr =
     (case fst (rd addr) of
        None \<Rightarrow> Inl SocketError
      | Some ctl_socket \<Rightarrow>
          (case snd (rd addr) of
             None \<Rightarrow> Inl SocketError
           | Some int_socket \<Rightarrow> DS4Device_init addr ctl_socket int_socket))"

subsection \<open>The discovery loop\<close>

text \<open>
  One run of \<^verbatim>\<open>hcitool scan\<close> under \<^verbatim>\<open>subprocess.check_output\<close>: the lines of its output,
  a non-zero exit status (CalledProcessError), or no such executable (OSError).
\<close>

datatype hcitool = Output "string list" | NonZeroExit | NotFound

text \<open>\<^verbatim>\<open>l.split(sep)\<close>: the fields between the occurrences of \<open>sep\<close>, one more than there are.\<close>

fun split_on :: "char \<Rightarrow> string \<Rightarrow> string list" where
  "split_on sep [] = [[]]"
| "split_on sep (c # cs) =
     (if c = sep then [] # split_on sep cs
      else (case split_on sep cs of
              [] \<Rightarrow> [[c]]
            | w # ws \<Rightarrow> (c # w) # ws))"

definition TAB :: char where
  "TAB = CHR 0x09"

text \<open>
  The loop of \<^verbatim>\<open>bluetooth_scan\<close>: each line must split into exactly three fields, or the
  tuple unpacking raises ValueError.
\<close>

fun scan_records :: "string list \<Rightarrow> error + (string \<times> string) list" where
  "scan_records [] = Inr []"
| "scan_records (l # ls) =
     (case split_on TAB l of
        [_, addr, name] \<Rightarrow>
          (case scan_records ls of
             Inl e \<Rightarrow> Inl e
           | Inr devices \<Rightarrow> Inr ((addr, name) # devices))
      | _ \<Rightarrow> Inl ValueError)"

definition bluetooth_scan :: "hcitool \<Rightarrow> error + (string \<times> string) list" where
  "bluetooth_scan h =
     (case h of
        NonZeroExit \<Rightarrow> Inl CalledProcessError
      | NotFound \<Rightarrow> Inl OSError
      | Output res \<Rightarrow> scan_records (drop 1 res))"

text \<open>
  The interpreter that runs the program. The two differ, for this program, in the
  discovery loop only. On Python 2 the output of the scan tool is a \<^verbatim>\<open>str\<close>, and
  \<^verbatim>\<open>socket.error\<close> is a subclass of IOError, a class apart from OSError. On Python 3 (3.3
  and later) the output is \<^verbatim>\<open>bytes\<close>, and \<^verbatim>\<open>socket.error\<close> is OSError itself.
\<close>

datatype python = Python2 | Python3

text \<open>
  \<^verbatim>\<open>name == "..."\<close> for a name taken from the scan output and a string literal of the
  program: on Python 2 both are \<^verbatim>\<open>str\<close> and are compared by content; on Python 3 the name
  is \<^verbatim>\<open>bytes\<close>, and a \<^verbatim>\<open>bytes\<close> value is never equal to a \<^verbatim>\<open>str\<close>.
\<close>

definition scanned_eq :: "python \<Rightarrow> string \<Rightarrow> string \<Rightarrow> bool" where
  "scanned_eq py name literal = (py = Python2 \<and> name = literal)"

text \<open>
  The loop of \<^verbatim>\<open>find_device\<close>: connect to the first device named as a controller and
  return; \<open>None\<close> when there is none.
\<close>

fun find_device_loop ::
  "python \<Rightarrow> radio \<Rightarrow> (string \<times> string) list \<Rightarrow> error + DS4Device option" where
  "find_device_loop py rd [] = Inr None"
| "find_device_loop py rd ((addr, name) # devices) =
     (if scanned_eq py name ''Wireless Controller'' then
        (case connect rd addr of
           Inl e \<Rightarrow> Inl e
         | Inr dev \<Rightarrow> Inr (Some dev))
      else find_device_loop py rd devices)"

definition find_device :: "python \<Rightarrow> radio \<Rightarrow> hcitool \<Rightarrow> error + DS4Device option" where
  "find_device py rd h =
     (case bluetooth_scan h of
        Inl e \<Rightarrow> Inl e
      | Inr devices \<Rightarrow> find_device_loop py rd devices)"

text \<open>
  Whether \<^verbatim>\<open>except OSError\<close> catches an exception: OSError on both interpreters, and
  \<^verbatim>\<open>socket.error\<close> on Python 3, where it is the same class.
\<close>

definition except_OSError :: "python \<Rightarrow> error \<Rightarrow> bool" where
  "except_OSError py e = (e = OSError \<or> (py = Python3 \<and> e = SocketError))"

text \<open>The two messages of \<^verbatim>\<open>find_devices\<close>; \<open>CHR 0x27\<close> is the apostrophe.\<close>

definition scan_error_text :: string where
  "scan_error_text =
     [CHR 0x27] @ ''hcitool scan'' @ [CHR 0x27] @ '' returned error. Make sure your '' @
     ''bluetooth device is on with '' @ [CHR 0x27] @ ''hciconfig hciX up'' @ [CHR 0x27] @ ''.''"

definition not_found_text :: string where
  "not_found_text =
     [CHR 0x27] @ ''hcitool'' @ [CHR 0x27] @ '' could not be found, make sure you have '' @
     ''bluez-utils installed.''"

text \<open>What the world does during one cycle of \<^verbatim>\<open>find_devices\<close>.\<close>

record cycle =
  scan_run :: hcitool
  air :: radio

text \<open>
  The generator \<^verbatim>\<open>find_devices\<close>, resumed once, over the cycles still to come. It yields
  the next connected device; an exception that leaves it ends the process (\<open>SystemExit\<close>
  from \<^verbatim>\<open>Daemon.exit\<close>, or the uncaught exception itself). \<open>Pending\<close> is the end of the
  given cycles, with the generator still looping.
\<close>

fun find_devices_next ::
  "python \<Rightarrow> cycle list \<Rightarrow> log \<Rightarrow> DS4Device gen \<times> cycle list \<times> log" where
  "find_devices_next py [] lg = (Pending, [], lg)"
| "find_devices_next py (c # cs) lg =
     (let lg1 = Daemon_info ''Looking for controllers'' lg in
      case find_device py (air c) (scan_run c) of
        Inr (Some device) \<Rightarrow> (Yield device, cs, lg1)
      | Inr None \<Rightarrow> find_devices_next py cs lg1
      | Inl e \<Rightarrow>
          (if e = CalledProcessError then
             (let (x, lg2) = Daemon_exit scan_error_text lg1 in (Raised x, cs, lg2))
           else if except_OSError py e then
             (let (x, lg2) = Daemon_exit not_found_text lg1 in (Raised x, cs, lg2))
           else (Raised e, cs, lg1)))"

subsection \<open>The supervisor\<close>

text \<open>
  A worker thread with the attributes \<^verbatim>\<open>main\<close> attaches to it. \<open>ident\<close> is the identity
  of the thread object.
\<close>

record thread =
  ident :: nat
  dynamic :: bool
  joypad :: UInputDevice
  options :: profile
  args_device :: DS4Device

text \<open>
  The variables of \<^verbatim>\<open>main\<close>. \<open>created\<close> counts the thread and virtual-device objects
  made so far and gives each new one its identity.
\<close>

record supervisor =
  joypads :: "(UInputDevice \<times> profile) list"
  threads :: "thread list"
  created :: nat
  main_log :: log

text \<open>
  \<^verbatim>\<open>ControllerAction.default_controller()\<close>: the parser's defaults, with the default
  \<^verbatim>\<open>--led\<close> value \<^verbatim>\<open>"0000ff"\<close> converted by \<^verbatim>\<open>hexcolor\<close>.
\<close>

definition default_controller :: profile where
  "default_controller =
     \<lparr>battery_flash = False, emulate_xpad = False, led = (0, 0, 255), trackpad_mouse = False\<rparr>"

text \<open>
  The sweep \<^verbatim>\<open>for thread in threads\<close>. A Python list iterator holds an index into the
  list: each round takes the item at the index and advances it by one, and the loop ends
  when the index reaches the current length. \<^verbatim>\<open>threads.remove(thread)\<close> shortens the list
  under the iterator. \<open>alive\<close> is what \<^verbatim>\<open>is_alive()\<close> answers for a thread.
\<close>

function sweep ::
  "(nat \<Rightarrow> bool) \<Rightarrow> nat \<Rightarrow> thread list \<Rightarrow> (UInputDevice \<times> profile) list
     \<Rightarrow> thread list \<times> (UInputDevice \<times> profile) list" where
  "sweep alive i ths jps =
     (if i < length ths then
        (let th = ths ! i in
         if \<not> alive (ident th) then
           sweep alive (Suc i) (remove1 th ths)
             (if \<not> dynamic th then (joypad th, options th) # jps else jps)
         else sweep alive (Suc i) ths jps)
      else (ths, jps))"
  by pat_completeness auto
termination
  by (relation "measure (\<lambda>(alive, i, ths, jps). length ths - i)")
     (auto simp: length_remove1)

declare sweep.simps [simp del]

text \<open>The body of \<^verbatim>\<open>for device in find_devices()\<close> in \<^verbatim>\<open>main\<close>.\<close>

definition main_body :: "(nat \<Rightarrow> bool) \<Rightarrow> supervisor \<Rightarrow> DS4Device \<Rightarrow> supervisor" where
  "main_body alive sv device =
     (let (ths, jps) = sweep alive 0 (threads sv) (joypads sv);
          lg = Daemon_info (''Found controller: '' @ bdaddr device) (main_log sv);
          (jp, opts, dyn, jps', n) =
            (if jps = [] then
               (\<lparr>uid = created sv, xpad = False, mouse = False, emitted = []\<rparr>,
                default_controller, True, jps, Suc (created sv))
             else (fst (hd jps), snd (hd jps), False, tl jps, created sv));
          th = \<lparr>ident = n, dynamic = dyn, joypad = jp, options = opts, args_device = device\<rparr>
      in \<lparr>joypads = jps', threads = ths @ [th], created = Suc n, main_log = lg\<rparr>)"

text \<open>
  The loop \<^verbatim>\<open>for device in find_devices()\<close> of \<^verbatim>\<open>main\<close>, over the devices that the
  discovery loop yields, each with the liveness of the threads at the moment it arrives.
\<close>

fun main_loop :: "((nat \<Rightarrow> bool) \<times> DS4Device) list \<Rightarrow> supervisor \<Rightarrow> supervisor" where
  "main_loop [] sv = sv"
| "main_loop ((alive, device) # rest) sv = main_loop rest (main_body alive sv device)"

subsection \<open>The wire format, as its description states it\<close>

text \<open>
  The integer whose 16-bit two's-complement representation has the low byte \<open>lo\<close> and
  the high byte \<open>hi\<close>.
\<close>

definition signed16 :: "int \<Rightarrow> int \<Rightarrow> int" where
  "signed16 lo hi = (let u = lo + 256 * hi in if u < 32768 then u else u - 65536)"

text \<open>
  The nibble-sharing scheme of a touch point whose id byte is at index \<open>i\<close>: the next
  byte is the low byte of \<open>x\<close>; the byte after it holds the high nibble of \<open>x\<close> in its
  low nibble and the low nibble of \<open>y\<close> in its high nibble; the last byte is the high
  byte of \<open>y\<close>.
\<close>

definition packed_touch :: "byte list \<Rightarrow> nat \<Rightarrow> int \<Rightarrow> int \<Rightarrow> bool" where
  "packed_touch b i x y =
     (item b (i + 1) = x mod 256
      \<and> item b (i + 2) mod 16 = x div 256
      \<and> item b (i + 2) div 16 = y mod 16
      \<and> item b (i + 3) = y div 16)"

text \<open>A 79-byte report buffer that is zero except for the listed bytes.\<close>

definition report_bytes :: "(nat \<times> byte) list \<Rightarrow> byte list" where
  "report_bytes ivs = fold (\<lambda>(i, v) b. b[i := v]) ivs (replicate 79 0)"

subsection \<open>Observations on a worker\<close>

text \<open>The control datagrams a worker has sent so far, oldest first.\<close>

definition commands :: "worker_state \<Rightarrow> byte list list" where
  "commands st = sent (ctl_sock (w_device st))"

text \<open>
  The control datagrams a worker had sent when its run ended or stalled; \<open>None\<close> when an
  exception ended it.
\<close>

fun worker_commands :: "worker_end \<Rightarrow> byte list list option" where
  "worker_commands (Finished st) = Some (commands st)"
| "worker_commands (Stalled st) = Some (commands st)"
| "worker_commands (Died e) = None"

text \<open>
  A control datagram that switches flashing on: one of its two flash durations, at payload
  offsets 11 and 12 and so at bytes 12 and 13 of the datagram, is not zero.
\<close>

definition flash_enabling :: "byte list \<Rightarrow> bool" where
  "flash_enabling data = (item data 12 \<noteq> 0 \<or> item data 13 \<noteq> 0)"

text \<open>
  The condition under which the loop body starts a flash: the three tests of lines 541
  and 542 of the source, the clock being read at call number \<open>time_calls st\<close>.
\<close>

definition flash_due :: "(nat \<Rightarrow> real) \<Rightarrow> worker_state \<Rightarrow> DS4Report \<Rightarrow> bool" where
  "flash_due clock st r =
     (battery r < 2 \<and> \<not> charging r \<and> \<not> led_flashing st
      \<and> clock (time_calls st) - led_last_flash st > 60)"

subsection \<open>Sample inputs\<close>

text \<open>
  A working socket whose peer will deliver the datagrams \<open>ds\<close>, and a freshly made
  device whose interrupt channel will deliver \<open>ds\<close>.
\<close>

definition sample_socket :: "byte list list \<Rightarrow> bt_socket" where
  "sample_socket ds = \<lparr>sent = [], inbound = ds, broken = False\<rparr>"

definition sample_device :: "byte list list \<Rightarrow> DS4Device" where
  "sample_device ds =
     \<lparr>bdaddr = ''00:1B:DC:00:00:01'', buf = bytearray 79,
      ctl_sock = sample_socket [], int_sock = sample_socket ds\<rparr>"

definition sample_joypad :: UInputDevice where
  "sample_joypad = \<lparr>uid = 0, xpad = False, mouse = False, emitted = []\<rparr>"

text \<open>A report with every field zero or false.\<close>

definition blank_report :: DS4Report where
  "blank_report =
     \<lparr>left_analog_x = 0, left_analog_y = 0, right_analog_x = 0, right_analog_y = 0,
      l2_analog = 0, r2_analog = 0,
      dpad_up = False, dpad_down = False, dpad_left = False, dpad_right = False,
      button_cross = False, button_circle = False, button_square = False,
      button_triangle = False,
      button_l1 = False, button_l2 = False, button_l3 = False,
      button_r1 = False, button_r2 = False, button_r3 = False,
      button_share = False, button_options = False,
      button_trackpad = False, button_ps = False,
      motion_y = 0, motion_x = 0, motion_z = 0,
      orientation_roll = 0, orientation_yaw = 0, orientation_pitch = 0,
      trackpad_touch0_id = 0, trackpad_touch0_active = False,
      trackpad_touch0_x = 0, trackpad_touch0_y = 0,
      trackpad_touch1_id = 0, trackpad_touch1_active = False,
      trackpad_touch1_x = 0, trackpad_touch1_y = 0,
      timestamp = 0, battery = 0, charging = False\<rparr>"

text \<open>
  A worker thread with identity \<open>i\<close> whose virtual device has identity \<open>u\<close>, with the
  default profile.
\<close>

definition sample_thread :: "nat \<Rightarrow> bool \<Rightarrow> nat \<Rightarrow> thread" where
  "sample_thread i dyn u =
     \<lparr>ident = i, dynamic = dyn, joypad = sample_joypad\<lparr>uid := u\<rparr>,
      options = default_controller, args_device = sample_device []\<rparr>"

text \<open>
  A scan that finds one controller, and a cycle with that scan in which the controller
  either accepts both connections or refuses them.
\<close>

definition sample_scan :: hcitool where
  "sample_scan =
     Output [''Scanning ...'', [TAB] @ ''00:1B:DC:00:00:01'' @ [TAB] @ ''Wireless Controller'']"

definition sample_cycle :: "bool \<Rightarrow> cycle" where
  "sample_cycle reachable =
     \<lparr>scan_run = sample_scan,
      air = (\<lambda>addr. if reachable then (Some (sample_socket []), Some (sample_socket []))
                      else (None, None))\<rparr>"

section \<open>Properties\<close>

subsection \<open>The control-command encoder\<close>

lemma replicate_13: "replicate 13 (x::byte) = [x, x, x, x, x, x, x, x, x, x, x, x, x]"
  by (simp add: numeral_eq_Suc)

lemma bytearray_78:
  "bytearray 78 = [0, 0, 0, 0, 0, 0, 0, 0, 0, 0, 0, 0, 0] @ replicate 65 0"
proof -
  have "replicate 78 (0::byte) = replicate (13 + 65) 0"
    by simp
  also have "\<dots> = replicate 13 0 @ replicate 65 0"
    by (rule replicate_add)
  finally show ?thesis
    by (simp only: bytearray_def replicate_13)
qed

lemma hid_header:
  "bytearray_of [HIDP_TRANS_SET_REPORT OR HIDP_DATA_RTYPE_OUTPUT] = Inr [0x52]"
  by (simp add: bytearray_of_def HIDP_TRANS_SET_REPORT_def HIDP_DATA_RTYPE_OUTPUT_def)

lemma setitems_append:
  assumes "\<forall>(i, v) \<in> set ivs. i < length xs"
  shows "setitems (xs @ ys) ivs =
           (case setitems xs ivs of Inl e \<Rightarrow> Inl e | Inr zs \<Rightarrow> Inr (zs @ ys))"
  using assms
proof (induction xs ivs rule: setitems.induct)
  case (1 arr)
  then show ?case by simp
next
  case (2 arr i v rest)
  then show ?case
    by (simp add: setitem_def list_update_append)
qed

lemma payload_head:
  assumes "args_in_range a"
  shows "setitems [0, 0, 0, 0, 0, 0, 0, 0, 0, 0, 0, 0, 0]
          [(0, 0x11), (1, 128), (3, 255),
           (6, big_rumble a), (7, small_rumble a),
           (8, led_red a), (9, led_green a), (10, led_blue a),
           (11, flash_led1 a),
           (12, flash_led2 a)] =
         Inr [0x11, 0x80, 0, 0xFF, 0, 0,
      word_of_int (big_rumble a), word_of_int (small_rumble a),
      word_of_int (led_red a), word_of_int (led_green a), word_of_int (led_blue a),
      word_of_int (flash_led1 a), word_of_int (flash_led2 a)]"
  using assms
  by (simp add: args_in_range_def setitem_def)

lemma control_packet_in_range:
  assumes "args_in_range a"
  shows "control_packet a = Inr (0x52 # control_payload a)"
proof -
  have "setitems (bytearray 78)
          [(0, 0x11), (1, 128), (3, 255),
           (6, big_rumble a), (7, small_rumble a),
           (8, led_red a), (9, led_green a), (10, led_blue a),
           (11, flash_led1 a),
           (12, flash_led2 a)] = Inr (control_payload a)"
    unfolding bytearray_78 control_payload_def
    by (subst setitems_append, simp, simp only: payload_head [OF assms] sum.case)
  then show ?thesis
    unfolding control_packet_def hid_header by simp
qed

lemma setitems_ValueError:
  assumes "\<forall>(i, v) \<in> set ivs. i < length arr"
    and "\<exists>(i, v) \<in> set ivs. v < 0 \<or> 256 \<le> v"
  shows "setitems arr ivs = Inl ValueError"
  using assms
proof (induction arr ivs rule: setitems.induct)
  case (1 arr)
  then show ?case by simp
next
  case (2 arr i v rest)
  show ?case
  proof (cases "v < 0 \<or> 256 \<le> v")
    case True
    with 2 show ?thesis by (simp add: setitem_def)
  next
    case False
    with 2 show ?thesis by (auto simp: setitem_def)
  qed
qed

lemma control_packet_out_of_range:
  assumes "\<not> args_in_range a"
  shows "control_packet a = Inl ValueError"
proof -
  have "setitems (bytearray 78)
          [(0, 0x11), (1, 128), (3, 255),
           (6, big_rumble a), (7, small_rumble a),
           (8, led_red a), (9, led_green a), (10, led_blue a),
           (11, flash_led1 a),
           (12, flash_led2 a)] = Inl ValueError"
  proof (rule setitems_ValueError)
    show "\<forall>(i, v) \<in> set [(0, 0x11), (1, 128), (3, 255),
           (6, big_rumble a), (7, small_rumble a),
           (8, led_red a), (9, led_green a), (10, led_blue a),
           (11, flash_led1 a),
           (12, flash_led2 a)]. i < length (bytearray 78)"
      by (simp add: bytearray_def)
    show "\<exists>(i, v) \<in> set [(0, 0x11), (1, 128), (3, 255),
           (6, big_rumble a), (7, small_rumble a),
           (8, led_red a), (9, led_green a), (10, led_blue a),
           (11, flash_led1 a),
           (12, flash_led2 a)]. v < 0 \<or> 256 \<le> v"
      using assms by (simp add: args_in_range_def) linarith
  qed
  then show ?thesis
    unfolding control_packet_def hid_header by simp
qed

lemma uint_byte_of_int:
  "0 \<le> v \<Longrightarrow> v < 256 \<Longrightarrow> uint (word_of_int v :: byte) = v"
  by (simp add: uint_word_of_int)

lemma control_payload_length: "length (control_payload a) = 78"
  by (simp add: control_payload_def)

lemma control_payload_items:
  assumes "args_in_range a"
  shows "item (control_payload a) 0 = 0x11"
    and "item (control_payload a) 1 = 0x80"
    and "item (control_payload a) 3 = 0xFF"
    and "item (control_payload a) 6 = big_rumble a"
    and "item (control_payload a) 7 = small_rumble a"
    and "item (control_payload a) 8 = led_red a"
    and "item (control_payload a) 9 = led_green a"
    and "item (control_payload a) 10 = led_blue a"
    and "item (control_payload a) 11 = flash_led1 a"
    and "item (control_payload a) 12 = flash_led2 a"
  using assms
  by (simp_all add: item_def control_payload_def args_in_range_def uint_byte_of_int)

lemma control_payload_zero:
  assumes "i < 78" and "i \<notin> {0, 1, 3, 6, 7, 8, 9, 10, 11, 12}"
  shows "item (control_payload a) i = 0"
proof (cases "i < 13")
  case True
  with assms(2) have "i = 2 \<or> i = 4 \<or> i = 5"
    by simp arith
  then show ?thesis
    by (auto simp: item_def control_payload_def)
next
  case False
  with assms(1) show ?thesis
    by (simp add: item_def control_payload_def nth_append)
qed

text \<open>
  Claim C10. With all seven parameters in 0 to 255, \<^verbatim>\<open>control\<close> builds one datagram of
  exactly 79 bytes whose first byte is \<^verbatim>\<open>HIDP_TRANS_SET_REPORT | HIDP_DATA_RTYPE_OUTPUT\<close>,
  which is 0x52, and hands it to the control socket in a single \<^verbatim>\<open>sendall\<close>; on a
  working socket the list of sent datagrams grows by exactly that datagram.
\<close>

theorem C10_control_sends_79_bytes:
  assumes "args_in_range a"
  shows "\<exists>data. control_packet a = Inr data
           \<and> length data = 79
           \<and> item data 0 = HIDP_TRANS_SET_REPORT OR HIDP_DATA_RTYPE_OUTPUT
           \<and> item data 0 = 0x52
           \<and> control dev a =
               (case sendall (ctl_sock dev) data of
                  Inl e \<Rightarrow> Inl e
                | Inr s \<Rightarrow> Inr (dev\<lparr>ctl_sock := s\<rparr>))
           \<and> (\<not> broken (ctl_sock dev) \<longrightarrow>
                 sendall (ctl_sock dev) data =
                   Inr ((ctl_sock dev)\<lparr>sent := sent (ctl_sock dev) @ [data]\<rparr>))"
proof -
  let ?data = "0x52 # control_payload a"
  have pkt: "control_packet a = Inr ?data"
    by (rule control_packet_in_range [OF assms])
  have "control dev a =
      (case sendall (ctl_sock dev) ?data of Inl e \<Rightarrow> Inl e | Inr s \<Rightarrow> Inr (dev\<lparr>ctl_sock := s\<rparr>))"
    by (simp add: control_def pkt)
  moreover have "length ?data = 79"
    by (simp add: control_payload_length)
  moreover have "item ?data 0 = HIDP_TRANS_SET_REPORT OR HIDP_DATA_RTYPE_OUTPUT"
    by (simp add: item_def HIDP_TRANS_SET_REPORT_def HIDP_DATA_RTYPE_OUTPUT_def)
  moreover have "item ?data 0 = 0x52"
    by (simp add: item_def)
  moreover have "\<not> broken (ctl_sock dev) \<longrightarrow>
      sendall (ctl_sock dev) ?data = Inr ((ctl_sock dev)\<lparr>sent := sent (ctl_sock dev) @ [?data]\<rparr>)"
    by (simp add: sendall_def)
  ultimately show ?thesis
    using pkt by blast
qed

text \<open>
  Claim C10, at a command that sets the red LED byte and a flash duration, sent on a
  working socket.
\<close>

theorem C10_control_sends_79_bytes_witness:
  "args_in_range (control_defaults\<lparr>led_red := 255, flash_led1 := 30\<rparr>)
   \<and> \<not> broken (ctl_sock (sample_device []))
   \<and> (\<exists>data dev'.
         control_packet (control_defaults\<lparr>led_red := 255, flash_led1 := 30\<rparr>) = Inr data
         \<and> control (sample_device []) (control_defaults\<lparr>led_red := 255, flash_led1 := 30\<rparr>)
             = Inr dev'
         \<and> sent (ctl_sock dev') = [data]
         \<and> length data = 79
         \<and> item data 0 = 0x52)"
proof -
  let ?a = "control_defaults\<lparr>led_red := 255, flash_led1 := 30\<rparr>"
  have a: "args_in_range ?a"
    by (simp add: args_in_range_def control_defaults_def)
  have up: "\<not> broken (ctl_sock (sample_device []))"
    and none: "sent (ctl_sock (sample_device [])) = []"
    by (simp_all add: sample_device_def sample_socket_def)
  from C10_control_sends_79_bytes [OF a, of "sample_device []"] up
  obtain data where d: "control_packet ?a = Inr data" "length data = 79" "item data 0 = 0x52"
    and c: "control (sample_device []) ?a =
               (case sendall (ctl_sock (sample_device [])) data of
                  Inl e \<Rightarrow> Inl e
                | Inr s \<Rightarrow> Inr ((sample_device [])\<lparr>ctl_sock := s\<rparr>))"
    and s: "sendall (ctl_sock (sample_device [])) data =
                   Inr ((ctl_sock (sample_device []))\<lparr>sent := sent (ctl_sock (sample_device [])) @ [data]\<rparr>)"
    by blast
  from c s none have "control (sample_device []) ?a =
      Inr ((sample_device [])\<lparr>ctl_sock := (ctl_sock (sample_device []))\<lparr>sent := [data]\<rparr>\<rparr>)"
    by simp
  then have "\<exists>dev'. control (sample_device []) ?a = Inr dev' \<and> sent (ctl_sock dev') = [data]"
    by simp
  with a up d show ?thesis by blast
qed

text \<open>
  Claim C6, amended. For every parameter assignment with all seven parameters in 0 to 255,
  \<^verbatim>\<open>control\<close> builds the transport-header byte followed by a 78-byte payload with 0x11 at
  payload offset 0, 0x80 at offset 1, 0xFF at offset 3, the two rumble values at offsets 6
  and 7, the LED red, green and blue values at offsets 8 to 10, the two flash durations at
  offsets 11 and 12, and zero at every other offset; with all parameters zero the payload
  is 0x11, 0x80, 0, 0xFF and 74 zero bytes.
\<close>

theorem C6_control_packet_layout:
  assumes "args_in_range a"
  shows "control_packet a = Inr (0x52 # control_payload a)
         \<and> length (control_payload a) = 78
         \<and> item (control_payload a) 0 = 0x11
         \<and> item (control_payload a) 1 = 0x80
         \<and> item (control_payload a) 3 = 0xFF
         \<and> item (control_payload a) 6 = big_rumble a
         \<and> item (control_payload a) 7 = small_rumble a
         \<and> item (control_payload a) 8 = led_red a
         \<and> item (control_payload a) 9 = led_green a
         \<and> item (control_payload a) 10 = led_blue a
         \<and> item (control_payload a) 11 = flash_led1 a
         \<and> item (control_payload a) 12 = flash_led2 a
         \<and> (\<forall>i < 78. i \<notin> {0, 1, 3, 6, 7, 8, 9, 10, 11, 12} \<longrightarrow> item (control_payload a) i = 0)
         \<and> control_packet control_defaults = Inr (0x52 # [0x11, 0x80, 0, 0xFF] @ replicate 74 0)"
proof -
  have zero: "args_in_range control_defaults"
    by (simp add: args_in_range_def control_defaults_def)
  have "replicate 74 (0::byte) = replicate 9 0 @ replicate 65 0"
    unfolding replicate_add [symmetric] by simp
  then have "control_payload control_defaults = [0x11, 0x80, 0, 0xFF] @ replicate 74 0"
    by (simp add: control_payload_def control_defaults_def numeral_eq_Suc)
  with control_packet_in_range [OF zero]
  have "control_packet control_defaults = Inr (0x52 # [0x11, 0x80, 0, 0xFF] @ replicate 74 0)"
    by simp
  with control_packet_in_range [OF assms] control_payload_items [OF assms]
    control_payload_length [of a] control_payload_zero [of _ a]
  show ?thesis by blast
qed

text \<open>Claim C6, amended, at seven different parameter values.\<close>

theorem C6_control_packet_layout_witness:
  "args_in_range (control_defaults\<lparr>big_rumble := 1, small_rumble := 2, led_red := 3,
       led_green := 4, led_blue := 5, flash_led1 := 6, flash_led2 := 7\<rparr>)
   \<and> control_packet (control_defaults\<lparr>big_rumble := 1, small_rumble := 2, led_red := 3,
       led_green := 4, led_blue := 5, flash_led1 := 6, flash_led2 := 7\<rparr>)
       = Inr ([0x52, 0x11, 0x80, 0, 0xFF, 0, 0, 1, 2, 3, 4, 5, 6, 7] @ replicate 65 0)"
  using C6_control_packet_layout
    [of "control_defaults\<lparr>big_rumble := 1, small_rumble := 2, led_red := 3,
       led_green := 4, led_blue := 5, flash_led1 := 6, flash_led2 := 7\<rparr>"]
  by (simp add: args_in_range_def control_defaults_def control_payload_def)

text \<open>
  Claim C6 as stated, "for every parameter assignment", fails: a parameter outside 0 to
  255 cannot be stored into the bytearray, so \<^verbatim>\<open>control(big_rumble=256)\<close> raises
  ValueError and builds no packet.
\<close>

theorem C6_out_of_range_counterexample:
  "control_packet (control_defaults\<lparr>big_rumble := 256\<rparr>) = Inl ValueError"
  by (rule control_packet_out_of_range) (simp add: args_in_range_def control_defaults_def)

subsection \<open>The report decoder\<close>

lemma and_15: "(k::int) AND 15 = k mod 16"
proof -
  have "k AND mask 4 = k mod 2 ^ 4"
    by (simp only: take_bit_eq_mask [symmetric] take_bit_eq_mod)
  then show ?thesis by (simp add: mask_eq_exp_minus_1)
qed

lemma and_127: "(k::int) AND 127 = k mod 128"
proof -
  have "k AND mask 7 = k mod 2 ^ 7"
    by (simp only: take_bit_eq_mask [symmetric] take_bit_eq_mod)
  then show ?thesis by (simp add: mask_eq_exp_minus_1)
qed

lemma drop_and_240: "drop_bit 4 ((k::int) AND 240) = k div 16 mod 16"
proof -
  have "drop_bit 4 (240::int) = 15" by (simp add: drop_bit_eq_div)
  then have "drop_bit 4 (k AND 240) = drop_bit 4 k AND 15"
    by (simp only: drop_bit_and)
  then show ?thesis
    by (simp add: and_15 drop_bit_eq_div)
qed

lemma or_concat:
  fixes l h :: int
  assumes "0 \<le> l" "l < 2 ^ n"
  shows "push_bit n h OR l = 2 ^ n * h + l"
proof -
  have "take_bit n l = l"
    using assms by (simp add: take_bit_int_eq_self)
  then have "push_bit n h OR l = concat_bit n l h"
    by (simp add: concat_bit_def or.commute)
  also have "\<dots> = take_bit n l + push_bit n h"
    by (rule concat_bit_eq)
  finally show ?thesis
    using \<open>take_bit n l = l\<close> by (simp add: push_bit_eq_mult)
qed

lemma wrap_16:
  fixes k :: int
  assumes "0 \<le> k" "k < 2 * 65536"
  shows "k mod 2 ^ 16 = k - (if k < 65536 then 0 else 65536)"
proof (cases "k < 65536")
  case True
  with assms show ?thesis by simp
next
  case False
  have "k mod 65536 = (k - 65536 + 65536) mod 65536" by simp
  also have "\<dots> = (k - 65536) mod 65536" by (simp only: mod_add_self2)
  also have "\<dots> = k - 65536"
    using False assms by (intro mod_pos_pos_trivial) simp_all
  finally show ?thesis using False by simp
qed

lemma S16LE_unpack_eq:
  "S16LE_unpack b i =
     (let u = item b i + 256 * item b (i + 1) in if u < 32768 then u else u - 65536)"
proof -
  let ?lo = "uint (b ! i)" and ?hi = "uint (b ! (i + 1))"
  let ?u = "?lo + 256 * ?hi"
  have lo: "0 \<le> ?lo" "?lo < 256" and hi: "0 \<le> ?hi" "?hi < 256"
    using uint_lt2p [of "b ! i"] uint_lt2p [of "b ! (i + 1)"] by simp_all
  have cat: "(word_cat (b ! (i + 1)) (b ! i) :: 16 word) = word_of_int ?u"
    by (simp add: word_cat_eq' concat_bit_eq take_bit_int_eq_self lo push_bit_eq_mult)
  have "sint (word_of_int ?u :: 16 word) = signed_take_bit 15 ?u"
    by (simp only: sint_sbintrunc') simp
  also have "\<dots> = take_bit 16 (?u + 32768) - 32768"
    by (simp add: signed_take_bit_eq_take_bit_shift)
  also have "\<dots> = ?u + 32768 - (if ?u < 32768 then 0 else 65536) - 32768"
    using wrap_16 [of "?u + 32768"] lo hi by (simp only: take_bit_eq_mod) simp
  also have "\<dots> = (if ?u < 32768 then ?u else ?u - 65536)"
    by simp
  finally show ?thesis
    unfolding S16LE_unpack_def cat item_def Let_def .
qed

lemma item_range: "0 \<le> item b i" "item b i < 256"
  using uint_lt2p [of "b ! i"] by (simp_all add: item_def)

lemma decode_report_motion:
  assumes "46 \<le> length b"
  shows "\<exists>r. decode_report b = Inr r
           \<and> motion_y r = signed16 (item b 16) (item b 17)
           \<and> motion_x r = signed16 (item b 18) (item b 19)
           \<and> motion_z r = signed16 (item b 20) (item b 21)
           \<and> orientation_roll r = - signed16 (item b 22) (item b 23)
           \<and> orientation_yaw r = signed16 (item b 24) (item b 25)
           \<and> orientation_pitch r = signed16 (item b 26) (item b 27)"
  using assms
  by (simp add: decode_report_def S16LE_unpack_eq signed16_def)

lemma signed16_encoding:
  assumes "- 32768 \<le> v" "v < 32768"
  shows "signed16 (v mod 256) (v div 256 mod 256) = v"
proof -
  have "v mod (256 * 256) = 256 * (v div 256 mod 256) + v mod 256"
    by (rule zmod_zmult2_eq) simp
  then have u: "v mod 256 + 256 * (v div 256 mod 256) = v mod 65536"
    by simp
  show ?thesis
  proof (cases "0 \<le> v")
    case True
    with assms have "v mod 65536 = v" by simp
    with u assms show ?thesis by (simp add: signed16_def)
  next
    case False
    have "v mod 65536 = (v + 65536) mod 65536" by simp
    also have "\<dots> = v + 65536"
      using False assms by (intro mod_pos_pos_trivial) simp_all
    finally show ?thesis
      using u False assms by (simp add: signed16_def)
  qed
qed

lemma touch_xy:
  assumes "0 \<le> x" "x < 4096" "0 \<le> y" "y < 4096" and "packed_touch b i x y"
  shows "push_bit 8 (item b (i + 2) AND 0x0f) OR item b (i + 1) = x"
    and "push_bit 4 (item b (i + 3)) OR drop_bit 4 (item b (i + 2) AND 0xf0) = y"
proof -
  from assms(5) have p: "item b (i + 1) = x mod 256" "item b (i + 2) mod 16 = x div 256"
    "item b (i + 2) div 16 = y mod 16" "item b (i + 3) = y div 16"
    by (simp_all add: packed_touch_def)
  have "push_bit 8 (item b (i + 2) AND 0x0f) OR item b (i + 1) = 2 ^ 8 * (x div 256) + x mod 256"
    unfolding and_15 p by (rule or_concat) simp_all
  then show "push_bit 8 (item b (i + 2) AND 0x0f) OR item b (i + 1) = x"
    by simp
  have "y mod 16 mod 16 = y mod 16" by simp
  then have "drop_bit 4 (item b (i + 2) AND 0xf0) = y mod 16"
    unfolding drop_and_240 p .
  then have "push_bit 4 (item b (i + 3)) OR drop_bit 4 (item b (i + 2) AND 0xf0)
      = 2 ^ 4 * (y div 16) + y mod 16"
    unfolding p by (simp only:) (rule or_concat, simp_all)
  then show "push_bit 4 (item b (i + 3)) OR drop_bit 4 (item b (i + 2) AND 0xf0) = y"
    by simp
qed

lemma top_bit_clear: "(drop_bit 7 (item b i) = 0) = (\<not> bit (b ! i) 7)"
proof -
  have "bit (b ! i) 7 = bit (uint (b ! i)) 7"
    by (simp add: bit_uint_iff)
  also have "\<dots> = odd (drop_bit 7 (item b i))"
    by (simp add: bit_iff_odd_drop_bit item_def)
  finally have 1: "bit (b ! i) 7 = odd (drop_bit 7 (item b i))" .
  have "0 \<le> drop_bit 7 (item b i)" "drop_bit 7 (item b i) < 2"
    using item_range [of b i] by (simp_all add: drop_bit_eq_div)
  then have "drop_bit 7 (item b i) = 0 \<or> drop_bit 7 (item b i) = 1"
    by linarith
  with 1 show ?thesis by auto
qed

lemma length_report_bytes: "length (report_bytes ivs) = 79"
proof -
  have "length (fold (\<lambda>(i, v) b. b[i := v]) ivs (b :: byte list)) = length b" for b
    by (induction ivs arbitrary: b) (auto split: prod.splits)
  then show ?thesis by (simp add: report_bytes_def)
qed

text \<open>
  Claim C7. In the report decoded from a 79-byte buffer, each of the three motion fields and
  of the three orientation fields is the signed 16-bit two's-complement integer held, low
  byte first, in its two wire bytes, except that \<open>orientation_roll\<close> is the negation of
  that integer: the sign inversion is applied to the roll axis and to no other.
  \<open>signed16\<close> inverts the two's-complement encoding on the whole 16-bit range.
\<close>

theorem C7_signed_motion_and_orientation:
  assumes "length b = 79"
  shows "(\<exists>r. decode_report b = Inr r
           \<and> motion_y r = signed16 (item b 16) (item b 17)
           \<and> motion_x r = signed16 (item b 18) (item b 19)
           \<and> motion_z r = signed16 (item b 20) (item b 21)
           \<and> orientation_roll r = - signed16 (item b 22) (item b 23)
           \<and> orientation_yaw r = signed16 (item b 24) (item b 25)
           \<and> orientation_pitch r = signed16 (item b 26) (item b 27))
         \<and> (\<forall>v. - 32768 \<le> v \<and> v < 32768 \<longrightarrow> signed16 (v mod 256) (v div 256 mod 256) = v)"
  using assms decode_report_motion [of b] signed16_encoding by simp

text \<open>
  Claim C7 on a buffer whose wire values are -1, -1, -2, -1, -1 and -32768: the wire bytes
  FF FF decode to -1, and to +1 on the inverted roll axis.
\<close>

theorem C7_signed_motion_and_orientation_witness:
  "length (report_bytes [(16, 0xFF), (17, 0xFF), (18, 0xFF), (19, 0xFF), (20, 0xFE), (21, 0xFF),
             (22, 0xFF), (23, 0xFF), (24, 0xFF), (25, 0xFF), (26, 0x00), (27, 0x80)]) = 79
   \<and> (\<exists>r. decode_report
             (report_bytes [(16, 0xFF), (17, 0xFF), (18, 0xFF), (19, 0xFF), (20, 0xFE), (21, 0xFF),
             (22, 0xFF), (23, 0xFF), (24, 0xFF), (25, 0xFF), (26, 0x00), (27, 0x80)]) = Inr r
         \<and> motion_y r = - 1 \<and> motion_x r = - 1 \<and> motion_z r = - 2
         \<and> orientation_roll r = 1 \<and> orientation_yaw r = - 1 \<and> orientation_pitch r = - 32768)
   \<and> signed16 (- 1 mod 256) (- 1 div 256 mod 256) = - 1"
  using C7_signed_motion_and_orientation
    [of "report_bytes [(16, 0xFF), (17, 0xFF), (18, 0xFF), (19, 0xFF), (20, 0xFE), (21, 0xFF),
             (22, 0xFF), (23, 0xFF), (24, 0xFF), (25, 0xFF), (26, 0x00), (27, 0x80)]"]
  by (simp add: length_report_bytes) (simp add: report_bytes_def item_def signed16_def)

lemma decode_report_touch:
  assumes "46 \<le> length b"
  shows "\<exists>r. decode_report b = Inr r
           \<and> trackpad_touch0_id r = item b 38 AND 0x7f
           \<and> trackpad_touch0_active r = (drop_bit 7 (item b 38) = 0)
           \<and> trackpad_touch0_x r = push_bit 8 (item b (38 + 2) AND 0x0f) OR item b (38 + 1)
           \<and> trackpad_touch0_y r = push_bit 4 (item b (38 + 3)) OR drop_bit 4 (item b (38 + 2) AND 0xf0)
           \<and> trackpad_touch1_id r = item b 42 AND 0x7f
           \<and> trackpad_touch1_active r = (drop_bit 7 (item b 42) = 0)
           \<and> trackpad_touch1_x r = push_bit 8 (item b (42 + 2) AND 0x0f) OR item b (42 + 1)
           \<and> trackpad_touch1_y r = push_bit 4 (item b (42 + 3)) OR drop_bit 4 (item b (42 + 2) AND 0xf0)"
  using assms
  by (simp add: decode_report_def)

text \<open>
  Claim C8. In the report decoded from a 79-byte buffer, for both touch points: whenever the
  three bytes after the id byte hold a 12-bit \<open>x\<close> and a 12-bit \<open>y\<close> packed by the
  nibble-sharing scheme, the decoded coordinates are that \<open>x\<close> and that \<open>y\<close>; the active
  flag is the negation of the top bit of the id byte, and the id is its low 7 bits.
\<close>

theorem C8_touch_point_round_trip:
  assumes "length b = 79"
  shows "\<exists>r. decode_report b = Inr r
           \<and> (\<forall>x y. 0 \<le> x \<and> x < 4096 \<and> 0 \<le> y \<and> y < 4096 \<and> packed_touch b 38 x y
                  \<longrightarrow> trackpad_touch0_x r = x \<and> trackpad_touch0_y r = y)
           \<and> (\<forall>x y. 0 \<le> x \<and> x < 4096 \<and> 0 \<le> y \<and> y < 4096 \<and> packed_touch b 42 x y
                  \<longrightarrow> trackpad_touch1_x r = x \<and> trackpad_touch1_y r = y)
           \<and> trackpad_touch0_active r = (\<not> bit (b ! 38) 7)
           \<and> trackpad_touch0_id r = item b 38 mod 128
           \<and> trackpad_touch1_active r = (\<not> bit (b ! 42) 7)
           \<and> trackpad_touch1_id r = item b 42 mod 128"
proof -
  from assms have "46 \<le> length b" by simp
  from decode_report_touch [OF this] obtain r where r: "decode_report b = Inr r"
    "trackpad_touch0_id r = item b 38 AND 0x7f"
    "trackpad_touch0_active r = (drop_bit 7 (item b 38) = 0)"
    "trackpad_touch0_x r = push_bit 8 (item b (38 + 2) AND 0x0f) OR item b (38 + 1)"
    "trackpad_touch0_y r = push_bit 4 (item b (38 + 3)) OR drop_bit 4 (item b (38 + 2) AND 0xf0)"
    "trackpad_touch1_id r = item b 42 AND 0x7f"
    "trackpad_touch1_active r = (drop_bit 7 (item b 42) = 0)"
    "trackpad_touch1_x r = push_bit 8 (item b (42 + 2) AND 0x0f) OR item b (42 + 1)"
    "trackpad_touch1_y r = push_bit 4 (item b (42 + 3)) OR drop_bit 4 (item b (42 + 2) AND 0xf0)"
    by blast
  have t0: "trackpad_touch0_x r = x \<and> trackpad_touch0_y r = y"
    if "0 \<le> x \<and> x < 4096 \<and> 0 \<le> y \<and> y < 4096 \<and> packed_touch b 38 x y" for x y
    using that touch_xy [of x y b 38] unfolding r(4,5) by simp
  have t1: "trackpad_touch1_x r = x \<and> trackpad_touch1_y r = y"
    if "0 \<le> x \<and> x < 4096 \<and> 0 \<le> y \<and> y < 4096 \<and> packed_touch b 42 x y" for x y
    using that touch_xy [of x y b 42] unfolding r(8,9) by simp
  have "trackpad_touch0_active r = (\<not> bit (b ! 38) 7)"
    and "trackpad_touch1_active r = (\<not> bit (b ! 42) 7)"
    and "trackpad_touch0_id r = item b 38 mod 128"
    and "trackpad_touch1_id r = item b 42 mod 128"
    by (simp_all only: r top_bit_clear and_127)
  with r(1) t0 t1 show ?thesis by blast
qed

text \<open>
  Claim C8 with the first point at x = 0xABC, y = 0x123, id byte 0x85 (top bit set: not
  active, id 5), and the second at x = y = 4095, id byte 0x07 (active, id 7).
\<close>

theorem C8_touch_point_round_trip_witness:
  "length (report_bytes [(38, 0x85), (39, 0xBC), (40, 0x3A), (41, 0x12),
                         (42, 0x07), (43, 0xFF), (44, 0xFF), (45, 0xFF)]) = 79
   \<and> (\<exists>r. decode_report (report_bytes [(38, 0x85), (39, 0xBC), (40, 0x3A), (41, 0x12),
                         (42, 0x07), (43, 0xFF), (44, 0xFF), (45, 0xFF)]) = Inr r
         \<and> trackpad_touch0_x r = 0xABC \<and> trackpad_touch0_y r = 0x123
         \<and> trackpad_touch1_x r = 4095 \<and> trackpad_touch1_y r = 4095
         \<and> \<not> trackpad_touch0_active r \<and> trackpad_touch0_id r = 5
         \<and> trackpad_touch1_active r \<and> trackpad_touch1_id r = 7)"
proof -
  let ?b = "report_bytes [(38, 0x85), (39, 0xBC), (40, 0x3A), (41, 0x12),
                         (42, 0x07), (43, 0xFF), (44, 0xFF), (45, 0xFF)]"
  have len: "length ?b = 79" by (rule length_report_bytes)
  have p0: "packed_touch ?b 38 0xABC 0x123" and p1: "packed_touch ?b 42 4095 4095"
    by (simp_all add: packed_touch_def report_bytes_def item_def)
  have bits: "bit (?b ! 38) 7" "\<not> bit (?b ! 42) 7"
    and ids: "item ?b 38 mod 128 = 5" "item ?b 42 mod 128 = 7"
    by (simp_all add: report_bytes_def item_def bit_iff_odd_drop_bit drop_bit_eq_div)
  from C8_touch_point_round_trip [OF len] obtain r where r: "decode_report ?b = Inr r"
    and t0: "\<And>x y. 0 \<le> x \<and> x < 4096 \<and> 0 \<le> y \<and> y < 4096 \<and> packed_touch ?b 38 x y
                  \<Longrightarrow> trackpad_touch0_x r = x \<and> trackpad_touch0_y r = y"
    and t1: "\<And>x y. 0 \<le> x \<and> x < 4096 \<and> 0 \<le> y \<and> y < 4096 \<and> packed_touch ?b 42 x y
                  \<Longrightarrow> trackpad_touch1_x r = x \<and> trackpad_touch1_y r = y"
    and rest: "trackpad_touch0_active r = (\<not> bit (?b ! 38) 7)"
      "trackpad_touch0_id r = item ?b 38 mod 128"
      "trackpad_touch1_active r = (\<not> bit (?b ! 42) 7)"
      "trackpad_touch1_id r = item ?b 42 mod 128"
    by blast
  from t0 [of "0xABC" "0x123"] p0 have "trackpad_touch0_x r = 0xABC \<and> trackpad_touch0_y r = 0x123"
    by simp
  moreover from t1 [of 4095 4095] p1 have "trackpad_touch1_x r = 4095 \<and> trackpad_touch1_y r = 4095"
    by simp
  ultimately show ?thesis
    using len r rest bits ids by simp
qed

text \<open>
  Claim C9, amended. The timestamp field of the report decoded from a 79-byte buffer is
  \<^verbatim>\<open>buf[10] >> 2\<close>, the upper six bits of byte 10: a 6-bit counter with values 0 to 63.
\<close>

theorem C9_timestamp_six_bits:
  assumes "length b = 79"
  shows "\<exists>r. decode_report b = Inr r
           \<and> timestamp r = item b 10 div 4
           \<and> 0 \<le> timestamp r \<and> timestamp r \<le> 63"
proof -
  have "0 \<le> item b 10 div 4" "item b 10 div 4 \<le> 63"
    using item_range [of b 10] by simp_all
  with assms show ?thesis
    by (simp add: decode_report_def drop_bit_eq_div)
qed

text \<open>
  Claim C9, amended, on a buffer whose byte 10 is 0x57.
\<close>

theorem C9_timestamp_six_bits_witness:
  "length (report_bytes [(10, 0x57)]) = 79
   \<and> (\<exists>r. decode_report (report_bytes [(10, 0x57)]) = Inr r \<and> timestamp r = 21)"
  using C9_timestamp_six_bits [of "report_bytes [(10, 0x57)]"]
  by (simp add: length_report_bytes) (auto simp: report_bytes_def item_def)

text \<open>
  Claim C9 as stated, a 4-bit counter with values 0 to 15, fails: a 79-byte buffer whose
  byte 10 is 0xFF decodes to the timestamp 63.
\<close>

theorem C9_timestamp_above_15_counterexample:
  "length (report_bytes [(10, 0xFF)]) = 79
   \<and> map_sum id timestamp (decode_report (report_bytes [(10, 0xFF)])) = Inr 63
   \<and> \<not> (63 \<le> (15::int))"
  by (simp add: length_report_bytes)
     (simp add: decode_report_def report_bytes_def item_def drop_bit_eq_div)

text \<open>
  Claim C3 does not hold of the code. The direction flags compare the whole of byte 8,
  whose upper four bits are the square, cross, circle and triangle buttons, with the
  values 0 to 7. Two 79-byte buffers with the same hat-switch nibble 0 (up) decode to
  different flags: with no button held \<open>dpad_up\<close> is set, with the cross button held
  (byte 8 = 0x20) all four flags are clear.
\<close>

theorem C3_dpad_lost_when_button_held:
  "length (report_bytes [(8, 0x20)]) = 79
   \<and> item (report_bytes [(8, 0x20)]) 8 mod 16 = 0
   \<and> item (report_bytes [(8, 0x00)]) 8 mod 16 = 0
   \<and> map_sum id (\<lambda>r. (dpad_up r, dpad_down r, dpad_left r, dpad_right r, button_cross r))
        (decode_report (report_bytes [(8, 0x00)])) = Inr (True, False, False, False, False)
   \<and> map_sum id (\<lambda>r. (dpad_up r, dpad_down r, dpad_left r, dpad_right r, button_cross r))
        (decode_report (report_bytes [(8, 0x20)])) = Inr (False, False, False, False, True)"
  by (simp add: length_report_bytes)
     (simp add: decode_report_def report_bytes_def item_def)

subsection \<open>The report stream\<close>

lemma recv_into_Returns:
  assumes "recv_into s b = Returns (ret, b', s')"
  shows "\<not> broken s"
    and "\<exists>d. inbound s = d # inbound s' \<and> ret = int (min (length d) (length b))"
    and "length b' = length b"
    and "0 \<le> ret" and "ret \<le> int (length b)"
  using assms
  by (auto simp: recv_into_def split: if_splits list.splits)

lemma decode_report_total:
  assumes "46 \<le> length b"
  shows "\<exists>r. decode_report b = Inr r"
  using assms by (simp add: decode_report_def)

text \<open>
  Claim C4. Whenever the receive call of \<^verbatim>\<open>read_report\<close> returns a count \<open>ret\<close>:
  a count of zero makes \<^verbatim>\<open>read_report\<close> return \<^verbatim>\<open>None\<close> and ends the report stream;
  a count above zero and below 79 makes it return \<^verbatim>\<open>False\<close>, for which the stream writes
  a warning to the log, yields nothing and goes on with the next receive; a count of 79
  yields the decoded report. A report is returned only if the count is at least 79, and
  \<^verbatim>\<open>read_report\<close> raises for no count.
\<close>

theorem C4_read_report_by_count:
  assumes "recv_into (int_sock dev) (buf dev) = Returns (ret, b, s)"
  shows "(ret = 0 \<longrightarrow>
            read_report dev = Returns (PyNone, dev\<lparr>buf := b, int_sock := s\<rparr>)
            \<and> reports_next dev lg = (StopIteration, dev\<lparr>buf := b, int_sock := s\<rparr>, lg))
         \<and> (0 < ret \<and> ret < 79 \<longrightarrow>
            read_report dev = Returns (PyFalse, dev\<lparr>buf := b, int_sock := s\<rparr>)
            \<and> reports_next dev lg =
                reports_next (dev\<lparr>buf := b, int_sock := s\<rparr>)
                  (Daemon_warn ''Got simplified HID report, ignoring'' lg))
         \<and> (79 \<le> ret \<longrightarrow>
            (\<exists>r. read_report dev = Returns (Report r, dev\<lparr>buf := b, int_sock := s\<rparr>)
                 \<and> reports_next dev lg = (Yield r, dev\<lparr>buf := b, int_sock := s\<rparr>, lg)))
         \<and> (\<forall>r dev'. read_report dev = Returns (Report r, dev') \<longrightarrow> 79 \<le> ret)
         \<and> (\<forall>e. read_report dev \<noteq> Raises e)"
proof -
  let ?dev' = "dev\<lparr>buf := b, int_sock := s\<rparr>"
  note recv = recv_into_Returns [OF assms]
  have none: "read_report dev = Returns (PyNone, ?dev')" if "ret = 0"
    using that assms by (simp add: read_report_def)
  have false: "read_report dev = Returns (PyFalse, ?dev')" if "0 < ret" "ret < 79"
    using that assms by (simp add: read_report_def)
  have full: "\<exists>r. read_report dev = Returns (Report r, ?dev')" if "79 \<le> ret"
  proof -
    from that recv(3,5) have "46 \<le> length b" by simp
    from decode_report_total [OF this] obtain r where "decode_report b = Inr r" ..
    with that assms show ?thesis by (simp add: read_report_def)
  qed
  have only: "79 \<le> ret" if "read_report dev = Returns (Report r, dev')" for r dev'
    using that assms by (simp add: read_report_def Let_def split: if_splits sum.splits)
  have never: "read_report dev \<noteq> Raises e" for e
  proof (cases "79 \<le> ret")
    case True
    from full [OF this] show ?thesis by auto
  next
    case False
    with recv(4) none false show ?thesis
      by (cases "ret = 0") auto
  qed
  show ?thesis
  proof (intro conjI impI allI)
    assume "ret = 0"
    from none [OF this] show "read_report dev = Returns (PyNone, ?dev')" .
    then show "reports_next dev lg = (StopIteration, ?dev', lg)"
      by (simp add: reports_next.simps [of dev])
  next
    assume a: "0 < ret \<and> ret < 79"
    with false show "read_report dev = Returns (PyFalse, ?dev')" by simp
    then show "reports_next dev lg =
        reports_next ?dev' (Daemon_warn ''Got simplified HID report, ignoring'' lg)"
      by (simp add: reports_next.simps [of dev])
  next
    assume "79 \<le> ret"
    from full [OF this] obtain r where r: "read_report dev = Returns (Report r, ?dev')" ..
    then have "reports_next dev lg = (Yield r, ?dev', lg)"
      by (simp add: reports_next.simps [of dev])
    with r show "\<exists>r. read_report dev = Returns (Report r, ?dev')
                 \<and> reports_next dev lg = (Yield r, ?dev', lg)"
      by blast
  next
    fix r dev' assume "read_report dev = Returns (Report r, dev')"
    then show "79 \<le> ret" by (rule only)
  next
    fix e show "read_report dev \<noteq> Raises e" by (rule never)
  qed
qed

text \<open>
  Claim C4 on three devices: one whose peer has closed the channel, one that receives a
  3-byte datagram, and one that receives a full 79-byte report.
\<close>

theorem C4_read_report_by_count_witness:
  "recv_into (int_sock (sample_device [[]])) (buf (sample_device [[]]))
     = Returns (0, bytearray 79, sample_socket [])
   \<and> reports_next (sample_device [[]]) []
     = (StopIteration, (sample_device [[]])\<lparr>buf := bytearray 79, int_sock := sample_socket []\<rparr>, [])
   \<and> recv_into (int_sock (sample_device [[1, 2, 3], []])) (buf (sample_device [[1, 2, 3], []]))
     = Returns (3, [1, 2, 3] @ replicate 76 0, sample_socket [[]])
   \<and> read_report (sample_device [[1, 2, 3], []])
     = Returns (PyFalse, (sample_device [[1, 2, 3], []])
                  \<lparr>buf := [1, 2, 3] @ replicate 76 0, int_sock := sample_socket [[]]\<rparr>)
   \<and> reports_next (sample_device [[1, 2, 3], []]) []
     = reports_next ((sample_device [[1, 2, 3], []])
                  \<lparr>buf := [1, 2, 3] @ replicate 76 0, int_sock := sample_socket [[]]\<rparr>)
         [''[warning] Got simplified HID report, ignoring'']
   \<and> recv_into (int_sock (sample_device [report_bytes []])) (buf (sample_device [report_bytes []]))
     = Returns (79, report_bytes [], sample_socket [])
   \<and> (\<exists>r. reports_next (sample_device [report_bytes []]) []
     = (Yield r, (sample_device [report_bytes []])\<lparr>buf := report_bytes [], int_sock := sample_socket []\<rparr>, []))"
proof -
  have r0: "recv_into (int_sock (sample_device [[]])) (buf (sample_device [[]]))
     = Returns (0, bytearray 79, sample_socket [])"
    by (simp add: recv_into_def sample_device_def sample_socket_def)
  have r3: "recv_into (int_sock (sample_device [[1, 2, 3], []])) (buf (sample_device [[1, 2, 3], []]))
     = Returns (3, [1, 2, 3] @ replicate 76 0, sample_socket [[]])"
    by (simp add: recv_into_def sample_device_def sample_socket_def bytearray_def)
  have r79: "recv_into (int_sock (sample_device [report_bytes []])) (buf (sample_device [report_bytes []]))
     = Returns (79, report_bytes [], sample_socket [])"
    by (simp add: recv_into_def sample_device_def sample_socket_def bytearray_def report_bytes_def)
  have warn: "Daemon_warn ''Got simplified HID report, ignoring'' []
      = [''[warning] Got simplified HID report, ignoring'']"
    by (simp add: Daemon_warn_def Daemon_msg_def)
  from C4_read_report_by_count [OF r0, of "[]"]
  have 0: "reports_next (sample_device [[]]) []
     = (StopIteration, (sample_device [[]])\<lparr>buf := bytearray 79, int_sock := sample_socket []\<rparr>, [])"
    by simp
  from C4_read_report_by_count [OF r3, of "[]"]
  have 3: "read_report (sample_device [[1, 2, 3], []])
     = Returns (PyFalse, (sample_device [[1, 2, 3], []])
                  \<lparr>buf := [1, 2, 3] @ replicate 76 0, int_sock := sample_socket [[]]\<rparr>)"
    "reports_next (sample_device [[1, 2, 3], []]) []
     = reports_next ((sample_device [[1, 2, 3], []])
                  \<lparr>buf := [1, 2, 3] @ replicate 76 0, int_sock := sample_socket [[]]\<rparr>)
         [''[warning] Got simplified HID report, ignoring'']"
    by (simp_all only: warn) simp_all
  from C4_read_report_by_count [OF r79, of "[]"]
  have 79: "\<exists>r. reports_next (sample_device [report_bytes []]) []
     = (Yield r, (sample_device [report_bytes []])\<lparr>buf := report_bytes [], int_sock := sample_socket []\<rparr>, [])"
    by auto
  from r0 0 r3 3 r79 79 show ?thesis by blast
qed

subsection \<open>The worker and its LED policy\<close>

lemma control_ok:
  assumes "args_in_range a" "\<not> broken (ctl_sock dev)"
  shows "control dev a =
           Inr (dev\<lparr>ctl_sock := (ctl_sock dev)\<lparr>sent := sent (ctl_sock dev) @ [0x52 # control_payload a]\<rparr>\<rparr>)"
  using assms by (simp add: control_def control_packet_in_range sendall_def)

lemma args_in_range_flash:
  assumes "args_in_range (led_args opts)"
  shows "args_in_range ((led_args opts)\<lparr>flash_led1 := 30, flash_led2 := 30\<rparr>)"
    and "args_in_range (control_defaults\<lparr>flash_led1 := 0, flash_led2 := 0\<rparr>)"
  using assms by (simp_all add: args_in_range_def led_args_def control_defaults_def)

lemma flash_enabling_packet:
  assumes "args_in_range a"
  shows "flash_enabling (0x52 # control_payload a) = (flash_led1 a \<noteq> 0 \<or> flash_led2 a \<noteq> 0)"
proof -
  have "item (0x52 # control_payload a) 12 = item (control_payload a) 11"
    and "item (0x52 # control_payload a) 13 = item (control_payload a) 12"
    by (simp_all add: item_def)
  with control_payload_items(9,10) [OF assms] show ?thesis
    by (simp add: flash_enabling_def)
qed

lemma flash_enabling_cases:
  assumes "args_in_range (led_args opts)"
  shows "\<not> flash_enabling (0x52 # control_payload (led_args opts))"
    and "\<not> flash_enabling (0x52 # control_payload (control_defaults\<lparr>flash_led1 := 0, flash_led2 := 0\<rparr>))"
    and "flash_enabling (0x52 # control_payload ((led_args opts)\<lparr>flash_led1 := 30, flash_led2 := 30\<rparr>))"
  using assms args_in_range_flash [OF assms]
  by (simp_all add: flash_enabling_packet) (simp_all add: led_args_def control_defaults_def)

lemma flash_start_effect:
  assumes "args_in_range (led_args opts)" "\<not> broken (ctl_sock (w_device st))"
  shows "\<exists>st'. flash_start clock opts st r = Inr st'
           \<and> commands st' = commands st @
                (if flash_due clock st r
                 then [0x52 # control_payload ((led_args opts)\<lparr>flash_led1 := 30, flash_led2 := 30\<rparr>)]
                 else [])
           \<and> \<not> broken (ctl_sock (w_device st'))
           \<and> int_sock (w_device st') = int_sock (w_device st)
           \<and> buf (w_device st') = buf (w_device st)
           \<and> w_joypad st' = w_joypad st \<and> w_log st' = w_log st
           \<and> (led_flashing st \<longrightarrow> st' = st)"
  using assms args_in_range_flash(1) [OF assms(1)]
  by (simp add: flash_start_def flash_due_def commands_def time_now_def control_ok)

lemma flash_stop_effect:
  assumes "args_in_range (led_args opts)" "\<not> broken (ctl_sock (w_device st))"
  shows "\<exists>st'. flash_stop clock opts st = Inr st'
           \<and> commands st' = commands st @
                (if led_flashing st \<and> clock (time_calls st) - led_last_flash st > 5
                 then [0x52 # control_payload (control_defaults\<lparr>flash_led1 := 0, flash_led2 := 0\<rparr>),
                       0x52 # control_payload (led_args opts)]
                 else [])
           \<and> \<not> broken (ctl_sock (w_device st'))
           \<and> int_sock (w_device st') = int_sock (w_device st)
           \<and> buf (w_device st') = buf (w_device st)
           \<and> w_joypad st' = w_joypad st \<and> w_log st' = w_log st"
  using assms args_in_range_flash(2) [OF assms(1)]
  by (simp add: flash_stop_def commands_def time_now_def control_ok)

lemma read_device_body_effect:
  assumes "args_in_range (led_args opts)" "\<not> broken (ctl_sock (w_device st))"
  shows "\<exists>st'. read_device_body clock opts st r = Inr st'
           \<and> filter flash_enabling (commands st') = filter flash_enabling (commands st) @
                (if battery_flash opts \<and> flash_due clock st r
                 then [0x52 # control_payload ((led_args opts)\<lparr>flash_led1 := 30, flash_led2 := 30\<rparr>)]
                 else [])
           \<and> (led_flashing st \<longrightarrow> commands st' = commands st @
                (if battery_flash opts \<and> clock (time_calls st) - led_last_flash st > 5
                 then [0x52 # control_payload (control_defaults\<lparr>flash_led1 := 0, flash_led2 := 0\<rparr>),
                       0x52 # control_payload (led_args opts)]
                 else []))
           \<and> \<not> broken (ctl_sock (w_device st'))
           \<and> int_sock (w_device st') = int_sock (w_device st)
           \<and> buf (w_device st') = buf (w_device st)
           \<and> emitted (w_joypad st') = emitted (w_joypad st) @ [r]
           \<and> w_log st' = w_log st"
proof (cases "battery_flash opts")
  case False
  then show ?thesis
    using assms(2) by (simp add: read_device_body_def commands_def emit_def)
next
  case True
  from flash_start_effect [OF assms, of clock r] obtain st1 where
    st1: "flash_start clock opts st r = Inr st1"
      "commands st1 = commands st @
                (if flash_due clock st r
                 then [0x52 # control_payload ((led_args opts)\<lparr>flash_led1 := 30, flash_led2 := 30\<rparr>)]
                 else [])"
      "\<not> broken (ctl_sock (w_device st1))"
      "int_sock (w_device st1) = int_sock (w_device st)"
      "buf (w_device st1) = buf (w_device st)"
      "w_joypad st1 = w_joypad st" "w_log st1 = w_log st"
      "led_flashing st \<longrightarrow> st1 = st"
    by blast
  from flash_stop_effect [OF assms(1) st1(3), of clock] obtain st2 where
    st2: "flash_stop clock opts st1 = Inr st2"
      "commands st2 = commands st1 @
                (if led_flashing st1 \<and> clock (time_calls st1) - led_last_flash st1 > 5
                 then [0x52 # control_payload (control_defaults\<lparr>flash_led1 := 0, flash_led2 := 0\<rparr>),
                       0x52 # control_payload (led_args opts)]
                 else [])"
      "\<not> broken (ctl_sock (w_device st2))"
      "int_sock (w_device st2) = int_sock (w_device st1)"
      "buf (w_device st2) = buf (w_device st1)"
      "w_joypad st2 = w_joypad st1" "w_log st2 = w_log st1"
    by blast
  let ?st' = "st2\<lparr>w_joypad := emit (w_joypad st2) r\<rparr>"
  have body: "read_device_body clock opts st r = Inr ?st'"
    using True st1(1) st2(1) by (simp add: read_device_body_def)
  have cmds: "commands ?st' = commands st2"
    by (simp add: commands_def)
  have filt: "filter flash_enabling (commands ?st') = filter flash_enabling (commands st) @
                (if battery_flash opts \<and> flash_due clock st r
                 then [0x52 # control_payload ((led_args opts)\<lparr>flash_led1 := 30, flash_led2 := 30\<rparr>)]
                 else [])"
    using True flash_enabling_cases [OF assms(1)]
    by (simp add: cmds st2(2) st1(2))
  have first: "commands ?st' = commands st @
                (if battery_flash opts \<and> clock (time_calls st) - led_last_flash st > 5
                 then [0x52 # control_payload (control_defaults\<lparr>flash_led1 := 0, flash_led2 := 0\<rparr>),
                       0x52 # control_payload (led_args opts)]
                 else [])" if "led_flashing st"
  proof -
    from that st1(8) have "st1 = st" by simp
    with that True show ?thesis by (simp add: cmds st2(2))
  qed
  have rest: "\<not> broken (ctl_sock (w_device ?st'))"
    "int_sock (w_device ?st') = int_sock (w_device st)"
    "buf (w_device ?st') = buf (w_device st)"
    "emitted (w_joypad ?st') = emitted (w_joypad st) @ [r]"
    "w_log ?st' = w_log st"
    using st1 st2 by (simp_all add: emit_def)
  from body filt first rest show ?thesis by blast
qed

lemma reports_next_full:
  assumes "\<not> broken (int_sock dev)" "inbound (int_sock dev) = d # rest"
    and "length (buf dev) = 79" "79 \<le> length d"
  shows "\<exists>r. decode_report (take 79 d) = Inr r
           \<and> reports_next dev lg =
               (Yield r, dev\<lparr>buf := take 79 d, int_sock := (int_sock dev)\<lparr>inbound := rest\<rparr>\<rparr>, lg)"
proof -
  have "46 \<le> length (take 79 d)" using assms(4) by simp
  from decode_report_total [OF this] obtain r where r: "decode_report (take 79 d) = Inr r" ..
  have "recv_into (int_sock dev) (buf dev) =
          Returns (79, take 79 d, (int_sock dev)\<lparr>inbound := rest\<rparr>)"
    using assms by (simp add: recv_into_def min_def)
  then have "read_report dev =
      Returns (Report r, dev\<lparr>buf := take 79 d, int_sock := (int_sock dev)\<lparr>inbound := rest\<rparr>\<rparr>)"
    using r by (simp add: read_report_def)
  then show ?thesis
    using r by (simp add: reports_next.simps [of dev])
qed

lemma reports_next_closed:
  assumes "\<not> broken (int_sock dev)" "inbound (int_sock dev) = [] # rest"
  shows "reports_next dev lg =
           (StopIteration, dev\<lparr>buf := buf dev, int_sock := (int_sock dev)\<lparr>inbound := rest\<rparr>\<rparr>, lg)"
proof -
  have "recv_into (int_sock dev) (buf dev) =
          Returns (0, buf dev, (int_sock dev)\<lparr>inbound := rest\<rparr>)"
    using assms by (simp add: recv_into_def)
  then have "read_report dev =
      Returns (PyNone, dev\<lparr>buf := buf dev, int_sock := (int_sock dev)\<lparr>inbound := rest\<rparr>\<rparr>)"
    by (simp add: read_report_def)
  then show ?thesis
    by (simp add: reports_next.simps [of dev])
qed

lemma read_device_single_report:
  assumes args: "args_in_range (led_args opts)"
    and ctl: "\<not> broken (ctl_sock dev)" and intr: "\<not> broken (int_sock dev)"
    and inb: "inbound (int_sock dev) = [d, []]"
    and len: "length (buf dev) = 79" "79 \<le> length d"
  shows "\<exists>st r. read_device clock dev jp opts = Finished st
           \<and> decode_report (take 79 d) = Inr r
           \<and> emitted (w_joypad st) = emitted jp @ [r]
           \<and> commands st = sent (ctl_sock dev) @ [0x52 # control_payload (led_args opts)] @
                (if battery_flash opts \<and> clock 1 - clock 0 > 5
                 then [0x52 # control_payload (control_defaults\<lparr>flash_led1 := 0, flash_led2 := 0\<rparr>),
                       0x52 # control_payload (led_args opts)]
                 else [])"
proof -
  let ?dev1 = "dev\<lparr>ctl_sock := (ctl_sock dev)\<lparr>sent := sent (ctl_sock dev) @ [0x52 # control_payload (led_args opts)]\<rparr>\<rparr>"
  let ?st0 = "\<lparr>w_device = ?dev1, w_joypad = jp, led_last_flash = clock 0, led_flashing = True,
             time_calls = 1, w_log = []\<rparr>"
  have start: "read_device clock dev jp opts = read_device_loop clock opts ?st0"
    by (simp add: read_device_def control_ok [OF args ctl])
  let ?dev2 = "?dev1\<lparr>buf := take 79 d, int_sock := (int_sock ?dev1)\<lparr>inbound := [[]]\<rparr>\<rparr>"
  from reports_next_full [of ?dev1 d "[[]]" "[]"] intr inb len
  obtain r where r: "decode_report (take 79 d) = Inr r"
    and next1: "reports_next ?dev1 [] = (Yield r, ?dev2, [])"
    by auto
  let ?st1 = "?st0\<lparr>w_device := ?dev2, w_log := []\<rparr>"
  have ok1: "\<not> broken (ctl_sock (w_device ?st1))"
    using ctl by simp
  from read_device_body_effect [OF args ok1, of clock r] obtain st2 where
    body: "read_device_body clock opts ?st1 r = Inr st2"
    and cmds: "commands st2 = commands ?st1 @
                (if battery_flash opts \<and> clock (time_calls ?st1) - led_last_flash ?st1 > 5
                 then [0x52 # control_payload (control_defaults\<lparr>flash_led1 := 0, flash_led2 := 0\<rparr>),
                       0x52 # control_payload (led_args opts)]
                 else [])"
    and st2: "\<not> broken (ctl_sock (w_device st2))"
      "int_sock (w_device st2) = int_sock (w_device ?st1)"
      "buf (w_device st2) = buf (w_device ?st1)"
      "emitted (w_joypad st2) = emitted (w_joypad ?st1) @ [r]"
      "w_log st2 = w_log ?st1"
    by auto
  have step1: "read_device_loop clock opts ?st0 = read_device_loop clock opts st2"
    using next1 body by (subst read_device_loop.simps) simp
  have "\<not> broken (int_sock (w_device st2))" "inbound (int_sock (w_device st2)) = [] # []"
    using st2(2) intr by simp_all
  from reports_next_closed [OF this, of "w_log st2"]
  have "read_device_loop clock opts st2 =
      Finished (st2\<lparr>w_device := (w_device st2)\<lparr>buf := buf (w_device st2),
                  int_sock := (int_sock (w_device st2))\<lparr>inbound := []\<rparr>\<rparr>, w_log := w_log st2\<rparr>)"
    (is "_ = Finished ?st3")
    by (subst read_device_loop.simps) simp
  with start step1 have "read_device clock dev jp opts = Finished ?st3"
    by simp
  moreover have "commands ?st3 = commands st2"
    by (simp add: commands_def)
  moreover have "commands ?st1 = sent (ctl_sock dev) @ [0x52 # control_payload (led_args opts)]"
    by (simp add: commands_def)
  ultimately show ?thesis
    using r cmds st2(4) by simp
qed

text \<open>
  Claim C2, amended. The LED state machine of a worker starts in the flashing state
  (\<^verbatim>\<open>led_flashing = True\<close>, with the session start as the time of the last flash). So a
  worker on working sockets that receives one full report, whatever its battery level and
  charging flag, and then the end of the stream, returns after handing the report to the
  virtual device and sends no flash-enabling command: besides the profile colour sent at
  the start it sends the flash-disabling command followed by the profile colour when
  battery-flash is enabled and the report is handled more than 5 seconds after the start,
  and nothing otherwise. In any state the loop body sends the flash-enabling command
  (durations 30 and 30) exactly when battery-flash is enabled, the battery level is below
  2, the controller is not charging, the LED is not flashing and more than 60 seconds have
  passed since the last flash began.
\<close>

theorem C2_led_policy_starts_flashing:
  assumes "args_in_range (led_args opts)"
    and "\<not> broken (ctl_sock dev)" and "\<not> broken (int_sock dev)"
    and "inbound (int_sock dev) = [d, []]"
    and "length (buf dev) = 79" and "79 \<le> length d"
    and "\<not> broken (ctl_sock (w_device st))"
  shows "(\<exists>st1 r1. read_device clock dev jp opts = Finished st1
           \<and> decode_report (take 79 d) = Inr r1
           \<and> emitted (w_joypad st1) = emitted jp @ [r1]
           \<and> commands st1 = sent (ctl_sock dev) @ [0x52 # control_payload (led_args opts)] @
                (if battery_flash opts \<and> clock 1 - clock 0 > 5
                 then [0x52 # control_payload (control_defaults\<lparr>flash_led1 := 0, flash_led2 := 0\<rparr>),
                       0x52 # control_payload (led_args opts)]
                 else [])
           \<and> filter flash_enabling (commands st1) = filter flash_enabling (sent (ctl_sock dev)))
         \<and> (\<exists>st'. read_device_body clock opts st r = Inr st'
           \<and> filter flash_enabling (commands st') = filter flash_enabling (commands st) @
                (if battery_flash opts \<and> battery r < 2 \<and> \<not> charging r \<and> \<not> led_flashing st
                    \<and> clock (time_calls st) - led_last_flash st > 60
                 then [0x52 # control_payload ((led_args opts)\<lparr>flash_led1 := 30, flash_led2 := 30\<rparr>)]
                 else []))"
proof -
  from read_device_single_report [OF assms(1-6), of clock jp]
  obtain st1 r1 where run: "read_device clock dev jp opts = Finished st1"
    "decode_report (take 79 d) = Inr r1"
    "emitted (w_joypad st1) = emitted jp @ [r1]"
    "commands st1 = sent (ctl_sock dev) @ [0x52 # control_payload (led_args opts)] @
                (if battery_flash opts \<and> clock 1 - clock 0 > 5
                 then [0x52 # control_payload (control_defaults\<lparr>flash_led1 := 0, flash_led2 := 0\<rparr>),
                       0x52 # control_payload (led_args opts)]
                 else [])"
    by blast
  have "filter flash_enabling (commands st1) = filter flash_enabling (sent (ctl_sock dev))"
    using flash_enabling_cases(1,2) [OF assms(1)] by (simp add: run(4))
  with run have first: "\<exists>st1 r1. read_device clock dev jp opts = Finished st1
           \<and> decode_report (take 79 d) = Inr r1
           \<and> emitted (w_joypad st1) = emitted jp @ [r1]
           \<and> commands st1 = sent (ctl_sock dev) @ [0x52 # control_payload (led_args opts)] @
                (if battery_flash opts \<and> clock 1 - clock 0 > 5
                 then [0x52 # control_payload (control_defaults\<lparr>flash_led1 := 0, flash_led2 := 0\<rparr>),
                       0x52 # control_payload (led_args opts)]
                 else [])
           \<and> filter flash_enabling (commands st1) = filter flash_enabling (sent (ctl_sock dev))"
    by blast
  from read_device_body_effect [OF assms(1,7), of clock r]
  have "\<exists>st'. read_device_body clock opts st r = Inr st'
           \<and> filter flash_enabling (commands st') = filter flash_enabling (commands st) @
                (if battery_flash opts \<and> battery r < 2 \<and> \<not> charging r \<and> \<not> led_flashing st
                    \<and> clock (time_calls st) - led_last_flash st > 60
                 then [0x52 # control_payload ((led_args opts)\<lparr>flash_led1 := 30, flash_led2 := 30\<rparr>)]
                 else [])"
    unfolding flash_due_def by blast
  with first show ?thesis by blast
qed

lemma default_led_in_range:
  "args_in_range (led_args (default_controller\<lparr>battery_flash := True\<rparr>))"
  by (simp add: args_in_range_def led_args_def default_controller_def control_defaults_def)

lemma sample_device_simps:
  "\<not> broken (ctl_sock (sample_device ds))" "\<not> broken (int_sock (sample_device ds))"
  "inbound (int_sock (sample_device ds)) = ds" "length (buf (sample_device ds)) = 79"
  "sent (ctl_sock (sample_device ds)) = []"
  by (simp_all add: sample_device_def sample_socket_def bytearray_def)

text \<open>
  Claim C2 as stated fails: with battery-flash enabled, a worker whose first and only
  report has battery = 1 and charging = false sends the profile colour and nothing else;
  no flash-enabling command is sent for that report.
\<close>

theorem C2_first_low_battery_report_counterexample:
  "map_sum id (\<lambda>r. (battery r, charging r)) (decode_report (report_bytes [(33, 0x01)]))
     = Inr (1, False)
   \<and> worker_commands
        (read_device (\<lambda>n. real n) (sample_device [report_bytes [(33, 0x01)], []]) sample_joypad
           (default_controller\<lparr>battery_flash := True\<rparr>))
     = Some [0x52 # control_payload (led_args default_controller)]
   \<and> \<not> flash_enabling (0x52 # control_payload (led_args default_controller))"
proof -
  let ?opts = "default_controller\<lparr>battery_flash := True\<rparr>"
  let ?d = "report_bytes [(33, 0x01)]"
  have 1: "map_sum id (\<lambda>r. (battery r, charging r)) (decode_report ?d) = Inr (1, False)"
    by (simp add: decode_report_def length_report_bytes) (simp add: report_bytes_def item_def)
  have led: "led_args ?opts = led_args default_controller"
    by (simp add: led_args_def)
  from read_device_single_report [OF default_led_in_range sample_device_simps(1,2),
      of "[?d, []]" ?d "\<lambda>n. real n" sample_joypad]
  obtain st where "read_device (\<lambda>n. real n) (sample_device [?d, []]) sample_joypad ?opts = Finished st"
    and "commands st = [0x52 # control_payload (led_args default_controller)]"
    by (auto simp: sample_device_simps length_report_bytes led)
  then have 2: "worker_commands
        (read_device (\<lambda>n. real n) (sample_device [?d, []]) sample_joypad ?opts)
     = Some [0x52 # control_payload (led_args default_controller)]"
    by simp
  have 3: "\<not> flash_enabling (0x52 # control_payload (led_args default_controller))"
    using flash_enabling_cases(1) [OF default_led_in_range] by (simp add: led)
  from 1 2 3 show ?thesis by blast
qed

text \<open>
  Claim C2, amended, with battery-flash enabled and a clock that advances 10 seconds per
  reading: a single report with battery = 15 and charging = true draws the flash-disabling
  command and the colour again, both without flash durations; and a steady worker whose
  last flash began at time 0 starts a flash on a battery = 1 report handled at time 70.
\<close>

theorem C2_led_policy_starts_flashing_witness:
  "args_in_range (led_args (default_controller\<lparr>battery_flash := True\<rparr>))
   \<and> \<not> broken (ctl_sock (sample_device [report_bytes [(33, 0x1F)], []]))
   \<and> \<not> broken (int_sock (sample_device [report_bytes [(33, 0x1F)], []]))
   \<and> inbound (int_sock (sample_device [report_bytes [(33, 0x1F)], []]))
        = [report_bytes [(33, 0x1F)], []]
   \<and> length (buf (sample_device [report_bytes [(33, 0x1F)], []])) = 79
   \<and> 79 \<le> length (report_bytes [(33, 0x1F)])
   \<and> \<not> broken (ctl_sock (w_device
          \<lparr>w_device = sample_device [], w_joypad = sample_joypad, led_last_flash = 0,
           led_flashing = False, time_calls = 7, w_log = []\<rparr>))
   \<and> (\<exists>st1 r1.
         read_device (\<lambda>n. 10 * real n) (sample_device [report_bytes [(33, 0x1F)], []])
           sample_joypad (default_controller\<lparr>battery_flash := True\<rparr>) = Finished st1
         \<and> decode_report (report_bytes [(33, 0x1F)]) = Inr r1
         \<and> emitted (w_joypad st1) = [r1]
         \<and> commands st1 =
             [0x52 # control_payload (led_args default_controller),
              0x52 # control_payload control_defaults,
              0x52 # control_payload (led_args default_controller)]
         \<and> filter flash_enabling (commands st1) = [])
   \<and> (\<exists>st'.
         read_device_body (\<lambda>n. 10 * real n) (default_controller\<lparr>battery_flash := True\<rparr>)
           \<lparr>w_device = sample_device [], w_joypad = sample_joypad, led_last_flash = 0,
            led_flashing = False, time_calls = 7, w_log = []\<rparr>
           (blank_report\<lparr>battery := 1\<rparr>) = Inr st'
         \<and> filter flash_enabling (commands st') =
             [0x52 # control_payload
                ((led_args default_controller)\<lparr>flash_led1 := 30, flash_led2 := 30\<rparr>)])"
proof -
  let ?opts = "default_controller\<lparr>battery_flash := True\<rparr>"
  let ?d = "report_bytes [(33, 0x1F)]"
  let ?st = "\<lparr>w_device = sample_device [], w_joypad = sample_joypad, led_last_flash = 0,
           led_flashing = False, time_calls = 7, w_log = []\<rparr>"
  have led: "led_args ?opts = led_args default_controller"
    by (simp add: led_args_def)
  have off: "control_defaults\<lparr>flash_led1 := 0, flash_led2 := 0\<rparr> = control_defaults"
    by (simp add: control_defaults_def)
  have h: "args_in_range (led_args ?opts)"
    "\<not> broken (ctl_sock (sample_device [?d, []]))"
    "\<not> broken (int_sock (sample_device [?d, []]))"
    "inbound (int_sock (sample_device [?d, []])) = [?d, []]"
    "length (buf (sample_device [?d, []])) = 79"
    "79 \<le> length ?d"
    "\<not> broken (ctl_sock (w_device ?st))"
    by (simp_all add: default_led_in_range sample_device_simps length_report_bytes)
  from C2_led_policy_starts_flashing
    [OF h, of "\<lambda>n. 10 * real n" sample_joypad "blank_report\<lparr>battery := 1\<rparr>"] h
  show ?thesis
    by (simp add: led off sample_device_simps length_report_bytes sample_joypad_def
        blank_report_def commands_def)
qed

subsection \<open>The discovery loop\<close>

lemma sample_scan_result:
  "bluetooth_scan sample_scan = Inr [(''00:1B:DC:00:00:01'', ''Wireless Controller'')]"
  by (simp add: bluetooth_scan_def sample_scan_def TAB_def)

lemma find_device_loop_find:
  "find_device_loop py rd devices =
     (case List.find (\<lambda>(addr, name). scanned_eq py name ''Wireless Controller'') devices of
        None \<Rightarrow> Inr None
      | Some (addr, name) \<Rightarrow>
          (case connect rd addr of Inl e \<Rightarrow> Inl e | Inr dev \<Rightarrow> Inr (Some dev)))"
  by (induction py rd devices rule: find_device_loop.induct) simp_all

text \<open>
  On Python 3 no scanned name equals the literal, so \<^verbatim>\<open>find_device\<close> never calls
  \<^verbatim>\<open>connect\<close>: it returns \<open>None\<close> whenever the scan itself succeeds.
\<close>

lemma find_device_Python3:
  "find_device Python3 rd h =
     (case bluetooth_scan h of Inl e \<Rightarrow> Inl e | Inr devices \<Rightarrow> Inr None)"
proof -
  have "find_device_loop Python3 rd devices = Inr None" for devices
    by (induction devices) (auto simp: scanned_eq_def)
  then show ?thesis
    by (simp add: find_device_def split: sum.splits)
qed

lemma connect_error:
  assumes "connect rd addr = Inl e"
  shows "e = SocketError"
proof -
  have "args_in_range (control_defaults\<lparr>led_red := 255, led_green := 255, led_blue := 255\<rparr>)"
    by (simp add: args_in_range_def control_defaults_def)
  then have "control_packet (control_defaults\<lparr>led_red := 255, led_green := 255, led_blue := 255\<rparr>)
      = Inr (0x52 # control_payload (control_defaults\<lparr>led_red := 255, led_green := 255, led_blue := 255\<rparr>))"
    by (rule control_packet_in_range)
  with assms show ?thesis
    by (auto simp: connect_def DS4Device_init_def control_def sendall_def
        split: option.splits sum.splits if_splits)
qed

lemma find_devices_next_connect_error:
  assumes "bluetooth_scan (scan_run c) = Inr devices"
    and "List.find (\<lambda>(addr, name). scanned_eq py name ''Wireless Controller'') devices
           = Some (addr, name)"
    and "connect (air c) addr = Inl e"
  shows "py = Python2"
    and "find_devices_next py (c # cs) lg =
           (Raised SocketError, cs, Daemon_info ''Looking for controllers'' lg)"
proof -
  from assms(2) have "scanned_eq py name ''Wireless Controller''"
    by (auto simp: find_Some_iff)
  then show py: "py = Python2"
    by (simp add: scanned_eq_def)
  from connect_error [OF assms(3)] have e: "e = SocketError" .
  have "find_device py (air c) (scan_run c) = Inl SocketError"
    using assms e by (simp add: find_device_def find_device_loop_find)
  then show "find_devices_next py (c # cs) lg =
           (Raised SocketError, cs, Daemon_info ''Looking for controllers'' lg)"
    using py by (simp add: except_OSError_def)
qed

text \<open>
  Claim C1, amended. A failure of the connection attempt is not retried. In a cycle of
  \<^verbatim>\<open>find_devices\<close> in which the scan lists a controller and \<^verbatim>\<open>connect\<close> raises, the
  exception is a \<^verbatim>\<open>socket.error\<close>, no handle is yielded, the cycles that would follow
  are not run, and the exception leaves the generator uncaught and ends the process. The
  loop repeats after a cycle in which no controller is found. Each of the two provider
  failures (executable missing, non-zero exit) ends the process through \<^verbatim>\<open>Daemon.exit\<close>.
\<close>

theorem C1_connect_failure_ends_discovery:
  "(\<forall>devices addr name e.
       bluetooth_scan (scan_run c) = Inr devices
       \<and> List.find (\<lambda>(addr, name). scanned_eq py name ''Wireless Controller'') devices
           = Some (addr, name)
       \<and> connect (air c) addr = Inl e
       \<longrightarrow> e = SocketError
           \<and> find_devices_next py (c # cs) lg =
               (Raised SocketError, cs, Daemon_info ''Looking for controllers'' lg))
   \<and> (find_device py (air c) (scan_run c) = Inr None
       \<longrightarrow> find_devices_next py (c # cs) lg =
             find_devices_next py cs (Daemon_info ''Looking for controllers'' lg))
   \<and> (scan_run c = NotFound
       \<longrightarrow> find_devices_next py (c # cs) lg =
             (Raised (SystemExit 1), cs,
              Daemon_msg ''error'' not_found_text (Daemon_info ''Looking for controllers'' lg)))
   \<and> (scan_run c = NonZeroExit
       \<longrightarrow> find_devices_next py (c # cs) lg =
             (Raised (SystemExit 1), cs,
              Daemon_msg ''error'' scan_error_text (Daemon_info ''Looking for controllers'' lg)))"
proof (intro conjI allI impI)
  fix devices addr name e
  assume a: "bluetooth_scan (scan_run c) = Inr devices
       \<and> List.find (\<lambda>(addr, name). scanned_eq py name ''Wireless Controller'') devices
           = Some (addr, name)
       \<and> connect (air c) addr = Inl e"
  then show "e = SocketError" by (blast dest: connect_error)
  from a show "find_devices_next py (c # cs) lg =
               (Raised SocketError, cs, Daemon_info ''Looking for controllers'' lg)"
    by (blast intro: find_devices_next_connect_error(2))
next
  assume "find_device py (air c) (scan_run c) = Inr None"
  then show "find_devices_next py (c # cs) lg =
             find_devices_next py cs (Daemon_info ''Looking for controllers'' lg)"
    by simp
next
  assume "scan_run c = NotFound"
  then show "find_devices_next py (c # cs) lg =
             (Raised (SystemExit 1), cs,
              Daemon_msg ''error'' not_found_text (Daemon_info ''Looking for controllers'' lg))"
    by (simp add: find_device_def bluetooth_scan_def except_OSError_def Daemon_exit_def)
next
  assume "scan_run c = NonZeroExit"
  then show "find_devices_next py (c # cs) lg =
             (Raised (SystemExit 1), cs,
              Daemon_msg ''error'' scan_error_text (Daemon_info ''Looking for controllers'' lg))"
    by (simp add: find_device_def bluetooth_scan_def Daemon_exit_def)
qed

lemma sample_cycle_facts:
  "bluetooth_scan (scan_run (sample_cycle reachable))
     = Inr [(''00:1B:DC:00:00:01'', ''Wireless Controller'')]"
  "List.find (\<lambda>(addr, name). scanned_eq Python2 name ''Wireless Controller'')
     [(''00:1B:DC:00:00:01'', ''Wireless Controller'')]
     = Some (''00:1B:DC:00:00:01'', ''Wireless Controller'')"
  "connect (air (sample_cycle False)) ''00:1B:DC:00:00:01'' = Inl SocketError"
  by (simp_all add: sample_cycle_def sample_scan_result connect_def scanned_eq_def)

lemma connect_reachable:
  "\<exists>dev. connect (air (sample_cycle True)) ''00:1B:DC:00:00:01'' = Inr dev"
proof -
  have "args_in_range (control_defaults\<lparr>led_red := 255, led_green := 255, led_blue := 255\<rparr>)"
    by (simp add: args_in_range_def control_defaults_def)
  from control_packet_in_range [OF this] show ?thesis
    by (simp add: sample_cycle_def connect_def DS4Device_init_def control_def sendall_def
        sample_socket_def)
qed

text \<open>
  Claim C1, amended, on Python 2: on a cycle whose controller refuses the connection
  (followed by a cycle in which it would accept), on a cycle whose scan finds nothing, and
  on the two provider failures.
\<close>

theorem C1_connect_failure_ends_discovery_witness:
  "bluetooth_scan (scan_run (sample_cycle False))
     = Inr [(''00:1B:DC:00:00:01'', ''Wireless Controller'')]
   \<and> List.find (\<lambda>(addr, name). scanned_eq Python2 name ''Wireless Controller'')
        [(''00:1B:DC:00:00:01'', ''Wireless Controller'')]
        = Some (''00:1B:DC:00:00:01'', ''Wireless Controller'')
   \<and> connect (air (sample_cycle False)) ''00:1B:DC:00:00:01'' = Inl SocketError
   \<and> find_devices_next Python2 [sample_cycle False, sample_cycle True] []
        = (Raised SocketError, [sample_cycle True], [''[info] Looking for controllers''])
   \<and> find_device Python2 (air (sample_cycle True)) (Output [''Scanning ...'']) = Inr None
   \<and> find_devices_next Python2
        [\<lparr>scan_run = Output [''Scanning ...''], air = air (sample_cycle True)\<rparr>] []
        = (Pending, [], [''[info] Looking for controllers''])
   \<and> fst (find_devices_next Python2 [\<lparr>scan_run = NotFound, air = air (sample_cycle True)\<rparr>] [])
        = Raised (SystemExit 1)
   \<and> fst (find_devices_next Python2
             [\<lparr>scan_run = NonZeroExit, air = air (sample_cycle True)\<rparr>] [])
        = Raised (SystemExit 1)"
proof -
  note facts = sample_cycle_facts(1) [of False] sample_cycle_facts(2,3)
  have none: "find_device Python2 (air (sample_cycle True)) (Output [''Scanning ...'']) = Inr None"
    by (simp add: find_device_def bluetooth_scan_def)
  have info: "Daemon_info ''Looking for controllers'' [] = [''[info] Looking for controllers'']"
    by (simp add: Daemon_info_def Daemon_msg_def)
  from C1_connect_failure_ends_discovery
    [of "sample_cycle False" Python2 "[sample_cycle True]" "[]"] facts
  have 1: "find_devices_next Python2 [sample_cycle False, sample_cycle True] []
        = (Raised SocketError, [sample_cycle True], [''[info] Looking for controllers''])"
    by (simp add: info)
  from C1_connect_failure_ends_discovery
    [of "\<lparr>scan_run = Output [''Scanning ...''], air = air (sample_cycle True)\<rparr>" Python2 "[]" "[]"]
    none
  have 2: "find_devices_next Python2
        [\<lparr>scan_run = Output [''Scanning ...''], air = air (sample_cycle True)\<rparr>] []
        = (Pending, [], [''[info] Looking for controllers''])"
    by (simp add: info)
  from C1_connect_failure_ends_discovery
    [of "\<lparr>scan_run = NotFound, air = air (sample_cycle True)\<rparr>" Python2 "[]" "[]"]
  have 3: "fst (find_devices_next Python2 [\<lparr>scan_run = NotFound, air = air (sample_cycle True)\<rparr>] [])
        = Raised (SystemExit 1)"
    by simp
  from C1_connect_failure_ends_discovery
    [of "\<lparr>scan_run = NonZeroExit, air = air (sample_cycle True)\<rparr>" Python2 "[]" "[]"]
  have 4: "fst (find_devices_next Python2
             [\<lparr>scan_run = NonZeroExit, air = air (sample_cycle True)\<rparr>] [])
        = Raised (SystemExit 1)"
    by simp
  from facts none 1 2 3 4 show ?thesis by blast
qed

text \<open>
  Claim C1 as stated fails, on Python 2: when the controller refuses the connection in the
  first cycle and would accept it in the second, \<^verbatim>\<open>find_devices\<close> does not reach the
  second cycle; the uncaught socket error of the first ends it.
\<close>

theorem C1_connect_failure_not_retried_counterexample:
  "connect (air (sample_cycle False)) ''00:1B:DC:00:00:01'' = Inl SocketError
   \<and> fst (find_devices_next Python2 [sample_cycle False, sample_cycle True] [])
       = Raised SocketError
   \<and> (case fst (find_devices_next Python2 [sample_cycle True] []) of
         Yield device \<Rightarrow> bdaddr device = ''00:1B:DC:00:00:01''
       | _ \<Rightarrow> False)"
proof -
  note facts = sample_cycle_facts(1) [of False] sample_cycle_facts(2,3)
  note err = find_devices_next_connect_error(2) [OF facts, of "[sample_cycle True]" "[]"]
  obtain dev where dev: "connect (air (sample_cycle True)) ''00:1B:DC:00:00:01'' = Inr dev"
    using connect_reachable by blast
  then have "bdaddr dev = ''00:1B:DC:00:00:01''"
    by (auto simp: connect_def DS4Device_init_def control_def sendall_def
        split: option.splits sum.splits if_splits)
  moreover have "find_device Python2 (air (sample_cycle True)) (scan_run (sample_cycle True))
      = Inr (Some dev)"
    using dev by (simp add: find_device_def sample_cycle_facts(1) scanned_eq_def)
  ultimately have "(case fst (find_devices_next Python2 [sample_cycle True] []) of
         Yield device \<Rightarrow> bdaddr device = ''00:1B:DC:00:00:01''
       | _ \<Rightarrow> False)"
    by simp
  with facts(3) err show ?thesis by simp
qed

subsection \<open>The supervisor\<close>

text \<open>
  Claim C5 does not hold of the code. The sweep removes a dead worker from the list it
  is iterating over, so the worker that follows a removed one is never visited.

  The run below starts with one configured virtual device (identity 0) in the queue. Two
  controllers connect: thread 1 gets the configured device, thread 3 a synthesized one
  (identity 2). Thread 1 dies and a third controller connects: thread 1 is swept, its
  device is reclaimed and given to the new thread 4, and the thread list is now thread 3
  (dynamic), thread 4 (static). Both die and a fourth controller connects: the sweep
  removes thread 3 and ends without visiting thread 4. Thread 4 stays in the active set,
  its device 0 is not put back into the queue, and the new controller gets a synthesized
  dynamic profile with a new device (identity 5).

  Likewise, of two dead static workers in a row only the first is reclaimed and removed.
\<close>

theorem C5_dead_static_worker_skipped:
  "map (\<lambda>th. (ident th, dynamic th, uid (joypad th)))
     (threads (main_loop
        [(\<lambda>i. True, sample_device []),
         (\<lambda>i. True, sample_device []),
         (\<lambda>i. i \<noteq> 1, sample_device [])]
        \<lparr>joypads = [(sample_joypad, default_controller)], threads = [], created = 1,
         main_log = []\<rparr>))
     = [(3, True, 2), (4, False, 0)]
   \<and> map (\<lambda>th. (ident th, dynamic th, uid (joypad th)))
       (threads (main_loop
          [(\<lambda>i. True, sample_device []),
           (\<lambda>i. True, sample_device []),
           (\<lambda>i. i \<noteq> 1, sample_device []),
           (\<lambda>i. False, sample_device [])]
          \<lparr>joypads = [(sample_joypad, default_controller)], threads = [], created = 1,
           main_log = []\<rparr>))
     = [(4, False, 0), (6, True, 5)]
   \<and> joypads (main_loop
          [(\<lambda>i. True, sample_device []),
           (\<lambda>i. True, sample_device []),
           (\<lambda>i. i \<noteq> 1, sample_device []),
           (\<lambda>i. False, sample_device [])]
          \<lparr>joypads = [(sample_joypad, default_controller)], threads = [], created = 1,
           main_log = []\<rparr>)
     = []
   \<and> sweep (\<lambda>i. False) 0 [sample_thread 3 False 2, sample_thread 4 False 0] []
     = ([sample_thread 4 False 0], [(sample_joypad\<lparr>uid := 2\<rparr>, default_controller)])"
proof -
  have "sweep (\<lambda>i. False) 0 [sample_thread 3 False 2, sample_thread 4 False 0] []
     = ([sample_thread 4 False 0], [(sample_joypad\<lparr>uid := 2\<rparr>, default_controller)])"
    by (simp add: sample_thread_def sweep.simps)
  then show ?thesis
    by (simp add: main_body_def sweep.simps sample_joypad_def)
qed

end
